theory Spec2Isabelle
  imports Complex_Main "HOL-Library.Log_Nat"
begin

section \<open>JavaScript numbers\<close>

text \<open>
  \<^verbatim>\<open>retries\<close> and \<^verbatim>\<open>delay\<close> are JavaScript Numbers: IEEE 754 doubles. A finite one is
  given by its value, a rational number; the two zeros are one value (nothing here tells
  them apart). The result of an operation is the exact result rounded to the nearest
  double, ties to the even significand, and to an infinity beyond the largest double.
\<close>

datatype number = Finite rat | PosInf | NegInf | NaN

definition round_half_even :: "rat \<Rightarrow> int" where
  "round_half_even x =
     (let f = \<lfloor>x\<rfloor>; r = x - of_int f
      in if r < 1 / 2 then f else if 1 / 2 < r then f + 1 else if even f then f else f + 1)"

text \<open>The exponent of a positive rational: \<open>2 powi e \<le> x < 2 powi (e + 1)\<close>, found from the
  bit lengths of numerator and denominator.\<close>

definition floor_log2 :: "rat \<Rightarrow> int" where
  "floor_log2 x =
     (case quotient_of x of
        (p, q) \<Rightarrow> let d = bitlen p - bitlen q in if 2 powi d \<le> x then d else d - 1)"

text \<open>
  Rounding to a double: 53 significant bits, the least exponent \<open>- 1022\<close> (below it the
  spacing stays \<open>2 powi (- 1074)\<close>), and overflow from \<open>2 ^ 1024\<close> on.
\<close>

definition round64 :: "rat \<Rightarrow> number" where
  "round64 x =
     (if x = 0 then Finite 0
      else
        let e = max (floor_log2 \<bar>x\<bar>) (- 1022);
            ulp = 2 powi (e - 52);
            y = of_int (round_half_even (\<bar>x\<bar> / ulp)) * ulp
        in if 2 ^ 1024 \<le> y then (if 0 < x then PosInf else NegInf)
           else Finite (if 0 < x then y else - y))"

text \<open>The three operations of the code: \<^verbatim>\<open>retries > 0\<close>, \<^verbatim>\<open>retries - 1\<close> and \<^verbatim>\<open>delay * 2\<close>.
  A comparison with NaN is false; an infinity and NaN stay what they are under both
  operations.\<close>

definition greater_zero :: "number \<Rightarrow> bool" where
  "greater_zero n = (case n of Finite x \<Rightarrow> 0 < x | PosInf \<Rightarrow> True | NegInf \<Rightarrow> False | NaN \<Rightarrow> False)"

definition minus_one :: "number \<Rightarrow> number" where
  "minus_one n = (case n of Finite x \<Rightarrow> round64 (x - 1) | PosInf \<Rightarrow> PosInf | NegInf \<Rightarrow> NegInf | NaN \<Rightarrow> NaN)"

definition times_two :: "number \<Rightarrow> number" where
  "times_two n = (case n of Finite x \<Rightarrow> round64 (x * 2) | PosInf \<Rightarrow> PosInf | NegInf \<Rightarrow> NegInf | NaN \<Rightarrow> NaN)"

section \<open>JSON values as the JavaScript code sees them\<close>

text \<open>
  The helpers of \<^verbatim>\<open>src/App.jsx\<close> work on the values that \<^verbatim>\<open>response.json()\<close> and
  \<^verbatim>\<open>JSON.parse\<close> produce. A JavaScript value that may also be \<^verbatim>\<open>undefined\<close> is a
  \<open>json option\<close>, with \<open>None\<close> for \<^verbatim>\<open>undefined\<close>. In an object, the first entry of a
  name is the property of that name.
\<close>

datatype json =
    JNull
  | JBool bool
  | JNum number
  | JStr string
  | JArr "json list"
  | JObj "(string \<times> json) list"

text \<open>JavaScript truthiness (\<^verbatim>\<open>if (x)\<close>, \<^verbatim>\<open>!x\<close>, \<^verbatim>\<open>x || y\<close>) of a defined value.\<close>

fun truthy :: "json \<Rightarrow> bool" where
  "truthy JNull = False"
| "truthy (JBool b) = b"
| "truthy (JNum n) = (n \<noteq> Finite 0 \<and> n \<noteq> NaN)"
| "truthy (JStr s) = (s \<noteq> [])"
| "truthy (JArr xs) = True"
| "truthy (JObj kvs) = True"

definition truthy_opt :: "json option \<Rightarrow> bool" where
  "truthy_opt v = (case v of None \<Rightarrow> False | Some x \<Rightarrow> truthy x)"

text \<open>
  \<^verbatim>\<open>v.name\<close> on a value that is neither \<^verbatim>\<open>null\<close> nor \<^verbatim>\<open>undefined\<close>, for the names the
  code reads (\<^verbatim>\<open>candidates\<close>, \<^verbatim>\<open>content\<close>, \<^verbatim>\<open>parts\<close>, \<^verbatim>\<open>text\<close>, \<^verbatim>\<open>error\<close>, \<^verbatim>\<open>message\<close>):
  an object gives its own property, and no prototype of an array, string, number or
  boolean has a property of one of these names.
\<close>

fun member :: "string \<Rightarrow> json \<Rightarrow> json option" where
  "member name (JObj kvs) = map_of kvs name"
| "member name v = None"

text \<open>\<^verbatim>\<open>v[0]\<close>: the first element of an array, the first character of a string, the
  property \<^verbatim>\<open>"0"\<close> of an object.\<close>

fun item0 :: "json \<Rightarrow> json option" where
  "item0 (JArr xs) = (case xs of [] \<Rightarrow> None | x # _ \<Rightarrow> Some x)"
| "item0 (JStr s) = (case s of [] \<Rightarrow> None | c # _ \<Rightarrow> Some (JStr [c]))"
| "item0 (JObj kvs) = map_of kvs ''0''"
| "item0 v = None"

text \<open>Optional chaining \<^verbatim>\<open>a?.name\<close> and \<^verbatim>\<open>a?.[0]\<close>: \<^verbatim>\<open>undefined\<close> when \<open>a\<close> is
  \<^verbatim>\<open>null\<close> or \<^verbatim>\<open>undefined\<close>.\<close>

definition opt_member :: "json option \<Rightarrow> string \<Rightarrow> json option" where
  "opt_member a name =
     (case a of None \<Rightarrow> None | Some JNull \<Rightarrow> None | Some v \<Rightarrow> member name v)"

definition opt_item0 :: "json option \<Rightarrow> json option" where
  "opt_item0 a = (case a of None \<Rightarrow> None | Some JNull \<Rightarrow> None | Some v \<Rightarrow> item0 v)"

text \<open>\<^verbatim>\<open>a || b\<close> with a defined right operand.\<close>

definition or_else :: "json option \<Rightarrow> json \<Rightarrow> json" where
  "or_else a b = (case a of None \<Rightarrow> b | Some v \<Rightarrow> if truthy v then v else b)"

section \<open>Errors, responses, requests and the trace of effects\<close>

text \<open>
  Every \<^verbatim>\<open>throw\<close> and every rejected promise is a value of \<open>error\<close>:
  \<^item> \<open>NetworkError\<close>: what \<^verbatim>\<open>fetch\<close> itself rejects with;
  \<^item> \<open>ApiError status message\<close>: the
    \<^verbatim>\<open>new Error(`API Error: ${response.status} ${detailedMessage}`)\<close> of \<^verbatim>\<open>fetchWithBackoff\<close>,
    kept as the status and the text that \<^verbatim>\<open>detailedMessage\<close> was converted to;
  \<^item> \<open>Error msg\<close>: \<^verbatim>\<open>new Error(msg)\<close> with a literal message;
  \<^item> \<open>SyntaxError\<close>: \<^verbatim>\<open>response.json()\<close> or \<^verbatim>\<open>JSON.parse\<close> on text that is not JSON;
  \<^item> \<open>TypeError\<close>: a property read on \<^verbatim>\<open>null\<close>, or a value that cannot be converted to a
    string.
\<close>

datatype error =
    NetworkError string
  | ApiError int string
  | Error string
  | SyntaxError
  | TypeError

text \<open>A response as the code reads it: \<open>json_result\<close> is what \<^verbatim>\<open>response.json()\<close> settles
  to, \<open>None\<close> when the body is not parseable JSON and the promise rejects.\<close>

record response =
  status :: int
  statusText :: string
  json_result :: "json option"

text \<open>\<^verbatim>\<open>response.ok\<close> is set by the platform: the status is in the range 200 to 299.\<close>

definition ok :: "response \<Rightarrow> bool" where
  "ok r = (200 \<le> status r \<and> status r \<le> 299)"

datatype fetch_result = Rejected error | Responded response

text \<open>The arguments \<^verbatim>\<open>url\<close> and \<^verbatim>\<open>options\<close> of a call: \<open>http_method\<close> is the field
  \<^verbatim>\<open>method\<close> of the options, \<open>body\<close> is the payload that the caller hands to
  \<^verbatim>\<open>JSON.stringify\<close>.\<close>

record request =
  url :: string
  http_method :: string
  headers :: "(string \<times> string) list"
  body :: json

text \<open>
  The observable effects, in the order they happen: a call of \<^verbatim>\<open>fetch\<close>, a wait of
  \<^verbatim>\<open>setTimeout\<close>, a \<^verbatim>\<open>console.error\<close> of an error body, a call of the progress callback
  \<^verbatim>\<open>setLoadingMessage\<close>. The network is a function from the number of the call of
  \<^verbatim>\<open>fetch\<close> (counted from 0) to what that call settles to, so every sequence of
  outcomes is some \<open>env\<close>.
\<close>

datatype event = Fetch request | Delay number | ConsoleError json | Progress string

fun requests :: "event list \<Rightarrow> request list" where
  "requests [] = []"
| "requests (Fetch r # tr) = r # requests tr"
| "requests (e # tr) = requests tr"

fun delays :: "event list \<Rightarrow> number list" where
  "delays [] = []"
| "delays (Delay d # tr) = d # delays tr"
| "delays (e # tr) = delays tr"

fun progress :: "event list \<Rightarrow> string list" where
  "progress [] = []"
| "progress (Progress m # tr) = m # progress tr"
| "progress (e # tr) = progress tr"

definition fetches :: "event list \<Rightarrow> nat" where
  "fetches tr = length (requests tr)"

section \<open>The platform\<close>

text \<open>
  Two functions of the platform are parameters: \<^verbatim>\<open>JSON.parse\<close> on a string (\<open>None\<close> when
  it throws its SyntaxError), and the conversion to a string of a value that is not a
  string, which a template literal and \<^verbatim>\<open>JSON.parse\<close> apply to their argument and which
  may throw (an object whose own \<^verbatim>\<open>toString\<close> is not callable).
\<close>

record runtime =
  JSON_parse :: "string \<Rightarrow> json option"
  ToString_other :: "json \<Rightarrow> error + string"

definition ToString :: "runtime \<Rightarrow> json option \<Rightarrow> error + string" where
  "ToString rt v =
     (case v of
        None \<Rightarrow> Inr ''undefined''
      | Some (JStr s) \<Rightarrow> Inr s
      | Some x \<Rightarrow> ToString_other rt x)"

section \<open>fetchWithBackoff\<close>

text \<open>
  What the \<^verbatim>\<open>try\<close> block of \<^verbatim>\<open>fetchWithBackoff\<close> does once \<^verbatim>\<open>fetch\<close> has settled:
  \<^item> \<open>Retry\<close>: the branch for status 429 with retries left (wait, then recurse);
  \<^item> \<open>Throw e\<close>: an exception inside the block, which the \<^verbatim>\<open>catch\<close> of the same
    function receives: the rejection of \<^verbatim>\<open>fetch\<close>, or the \<^verbatim>\<open>throw new Error(...)\<close>, or
    the TypeError of the template literal in it;
  \<^item> \<open>Return r\<close>: \<^verbatim>\<open>return response.json()\<close>. The promise is returned without
    \<^verbatim>\<open>await\<close>, so the block is left before the promise settles and its rejection is the
    rejection of the whole call.
  The second component holds the \<^verbatim>\<open>console.error\<close> of the error path.
\<close>

datatype outcome = Retry | Throw error | Return "error + json"

text \<open>
  The inner \<^verbatim>\<open>try\<close> of the error path: \<^verbatim>\<open>errorBody\<close> and \<^verbatim>\<open>detailedMessage\<close> after it.
  When \<^verbatim>\<open>response.json()\<close> rejects, the empty \<^verbatim>\<open>catch\<close> leaves both at their initial
  values \<^verbatim>\<open>null\<close> and \<^verbatim>\<open>response.statusText\<close>; otherwise
  \<^verbatim>\<open>detailedMessage = errorBody?.error?.message || detailedMessage\<close>.
\<close>

definition error_details :: "response \<Rightarrow> json \<times> json" where
  "error_details response =
     (case json_result response of
        None \<Rightarrow> (JNull, JStr (statusText response))
      | Some b \<Rightarrow>
          (b, or_else (opt_member (opt_member (Some b) ''error'') ''message'')
                (JStr (statusText response))))"

text \<open>
  What \<^verbatim>\<open>throw new Error(`API Error: ${response.status} ${detailedMessage}`)\<close> throws:
  the template literal converts \<^verbatim>\<open>detailedMessage\<close> to a string first, and when that
  conversion throws, its error is thrown in place of the new one.
\<close>

definition api_error :: "runtime \<Rightarrow> int \<Rightarrow> json \<Rightarrow> error" where
  "api_error rt code detailedMessage =
     (case ToString rt (Some detailedMessage) of
        Inl e \<Rightarrow> e
      | Inr message \<Rightarrow> ApiError code message)"

definition try_block :: "runtime \<Rightarrow> fetch_result \<Rightarrow> number \<Rightarrow> outcome \<times> event list" where
  "try_block rt settled retries =
     (case settled of
        Rejected e \<Rightarrow> (Throw e, [])
      | Responded response \<Rightarrow>
          if \<not> ok response then
            if status response = 429 \<and> greater_zero retries then (Retry, [])
            else
              let (errorBody, detailedMessage) = error_details response
              in (Throw (api_error rt (status response) detailedMessage),
                  [ConsoleError errorBody])
          else
            (Return (case json_result response of None \<Rightarrow> Inl SyntaxError | Some v \<Rightarrow> Inr v),
             []))"

text \<open>
  The function itself. Nothing bounds \<^verbatim>\<open>retries\<close>, and \<^verbatim>\<open>retries - 1\<close> is \<^verbatim>\<open>retries\<close> again
  for an infinity and for the doubles from \<open>2 ^ 54\<close> on, so a call need not return: the
  result is an option, \<open>None\<close> for the call that never settles. The trace is passed
  through: the call of \<^verbatim>\<open>fetch\<close> is recorded, then the \<^verbatim>\<open>console.error\<close> if there is one,
  then the wait before a recursive call. Both recursive calls are returned without
  \<^verbatim>\<open>await\<close>, so what they settle to is what the caller gets.
\<close>

partial_function (option) fetchWithBackoff ::
  "runtime \<Rightarrow> (nat \<Rightarrow> fetch_result) \<Rightarrow> request \<Rightarrow> number \<Rightarrow> number \<Rightarrow> event list
     \<Rightarrow> ((error + json) \<times> event list) option"
where
  "fetchWithBackoff rt env req retries delay tr =
     (case try_block rt (env (fetches tr)) retries of
        (out, evs) \<Rightarrow>
          let tr' = tr @ [Fetch req] @ evs in
          (case out of
             Retry \<Rightarrow>
               fetchWithBackoff rt env req (minus_one retries) (times_two delay)
                 (tr' @ [Delay delay])
           | Throw error \<Rightarrow>
               if greater_zero retries
               then fetchWithBackoff rt env req (minus_one retries) (times_two delay)
                      (tr' @ [Delay delay])
               else Some (Inl error, tr')
           | Return result \<Rightarrow> Some (result, tr')))"

section \<open>fetchGroundedJson\<close>

text \<open>\<^verbatim>\<open>data.candidates?.[0]?.content?.parts?.[0]?.text\<close>: the first access is not optional,
  so it throws on \<^verbatim>\<open>null\<close>.\<close>

definition first_text :: "json \<Rightarrow> error + json option" where
  "first_text data =
     (if data = JNull then Inl TypeError
      else Inr (opt_member (opt_item0 (opt_member (opt_member (opt_item0
             (member ''candidates'' data)) ''content'') ''parts'')) ''text''))"

definition apiUrl :: "string \<Rightarrow> string" where
  "apiUrl apiKey =
     ''https://generativelanguage.googleapis.com/v1beta/models/gemini-2.5-flash-preview-09-2025:generateContent?key=''
     @ apiKey"

definition post :: "string \<Rightarrow> json \<Rightarrow> request" where
  "post u payload =
     \<lparr>url = u, http_method = ''POST'', headers = [(''Content-Type'', ''application/json'')],
      body = payload\<rparr>"

definition searchPayload :: "string \<Rightarrow> json" where
  "searchPayload textPrompt =
     JObj [(''contents'', JArr [JObj [(''parts'', JArr [JObj [(''text'', JStr textPrompt)]])]]),
           (''tools'', JArr [JObj [(''google_search'', JObj [])]])]"

definition newline :: string where
  "newline = [CHR 0x0A]"

definition parseJsonPrompt :: "string \<Rightarrow> string" where
  "parseJsonPrompt groundedText =
     newline
     @ ''    Parse the following market analysis text and convert it into a valid JSON object matching the provided schema.''
     @ newline @ newline
     @ ''    TEXT TO PARSE:'' @ newline
     @ ''    ---'' @ newline
     @ ''    '' @ groundedText @ newline
     @ ''    ---'' @ newline @ newline
     @ ''    Respond ONLY with the valid JSON object.'' @ newline
     @ ''  ''"

definition jsonPayload :: "string \<Rightarrow> json \<Rightarrow> json" where
  "jsonPayload prompt jsonSchema =
     JObj [(''contents'', JArr [JObj [(''parts'', JArr [JObj [(''text'', JStr prompt)]])]]),
           (''generationConfig'',
              JObj [(''responseMimeType'', JStr ''application/json''),
                    (''responseSchema'', jsonSchema)])]"

definition step1_failed :: error where
  "step1_failed = Error ''Step 1 Failed: No content returned from analysis.''"

definition step2_failed :: error where
  "step2_failed = Error ''Step 2 Failed: No JSON content returned from parsing.''"

text \<open>
  The two steps of \<^verbatim>\<open>fetchGroundedJson\<close>, each \<^verbatim>\<open>await\<close> a case distinction on what the
  awaited call settled to. Both calls of \<^verbatim>\<open>fetchWithBackoff\<close> take the default
  \<^verbatim>\<open>retries = 3\<close> and \<^verbatim>\<open>delay = 1000\<close>. The handlers of \<^verbatim>\<open>src/App 1st Ver.jsx\<close> have the
  same two steps inline, with other messages and prompts, and report the error through
  \<^verbatim>\<open>onError\<close>.
\<close>

definition fetchGroundedJson ::
  "runtime \<Rightarrow> (nat \<Rightarrow> fetch_result) \<Rightarrow> string \<Rightarrow> string \<Rightarrow> json \<Rightarrow> event list
     \<Rightarrow> ((error + json) \<times> event list) option"
where
  "fetchGroundedJson rt env apiKey textPrompt jsonSchema tr =
     (let tr1 = tr @ [Progress ''Step 1/2: Searching for grounded insights...''] in
      case fetchWithBackoff rt env (post (apiUrl apiKey) (searchPayload textPrompt))
             (Finite 3) (Finite 1000) tr1 of
        None \<Rightarrow> None
      | Some (Inl e, tr2) \<Rightarrow> Some (Inl e, tr2)
      | Some (Inr searchData, tr2) \<Rightarrow>
          (case first_text searchData of
             Inl e \<Rightarrow> Some (Inl e, tr2)
           | Inr groundedText \<Rightarrow>
               if \<not> truthy_opt groundedText then Some (Inl step1_failed, tr2)
               else
                 let tr3 = tr2 @ [Progress ''Step 2/2: Analyzing and structuring data...''] in
                 (case ToString rt groundedText of
                    Inl e \<Rightarrow> Some (Inl e, tr3)
                  | Inr text \<Rightarrow>
                      (case fetchWithBackoff rt env
                              (post (apiUrl apiKey) (jsonPayload (parseJsonPrompt text) jsonSchema))
                              (Finite 3) (Finite 1000) tr3 of
                         None \<Rightarrow> None
                       | Some (Inl e, tr4) \<Rightarrow> Some (Inl e, tr4)
                       | Some (Inr jsonData, tr4) \<Rightarrow>
                           (case first_text jsonData of
                              Inl e \<Rightarrow> Some (Inl e, tr4)
                            | Inr jsonText \<Rightarrow>
                                if truthy_opt jsonText then
                                  (case ToString rt jsonText of
                                     Inl e \<Rightarrow> Some (Inl e, tr4)
                                   | Inr s \<Rightarrow>
                                       (case JSON_parse rt s of
                                          None \<Rightarrow> Some (Inl SyntaxError, tr4)
                                        | Some parsed \<Rightarrow> Some (Inr parsed, tr4)))
                                else Some (Inl step2_failed, tr4))))))"

text \<open>
  The two calls as \<^verbatim>\<open>fetchGroundedJson\<close> makes them, for stating what each returned.
\<close>

abbreviation phase1 ::
  "runtime \<Rightarrow> (nat \<Rightarrow> fetch_result) \<Rightarrow> string \<Rightarrow> string \<Rightarrow> event list
     \<Rightarrow> ((error + json) \<times> event list) option"
where
  "phase1 rt env apiKey textPrompt tr \<equiv>
     fetchWithBackoff rt env (post (apiUrl apiKey) (searchPayload textPrompt))
       (Finite 3) (Finite 1000)
       (tr @ [Progress ''Step 1/2: Searching for grounded insights...''])"

abbreviation phase2 ::
  "runtime \<Rightarrow> (nat \<Rightarrow> fetch_result) \<Rightarrow> string \<Rightarrow> string \<Rightarrow> json \<Rightarrow> event list
     \<Rightarrow> ((error + json) \<times> event list) option"
where
  "phase2 rt env apiKey text jsonSchema tr2 \<equiv>
     fetchWithBackoff rt env (post (apiUrl apiKey) (jsonPayload (parseJsonPrompt text) jsonSchema))
       (Finite 3) (Finite 1000) (tr2 @ [Progress ''Step 2/2: Analyzing and structuring data...''])"

text \<open>
  The first candidate's first text part of a response body as the specification speaks of
  it: \<open>None\<close> when any step on the way to it is missing, also for the body \<^verbatim>\<open>null\<close>.
\<close>

definition text_part :: "json \<Rightarrow> json option" where
  "text_part data =
     opt_member (opt_item0 (opt_member (opt_member (opt_item0
       (opt_member (Some data) ''candidates'')) ''content'') ''parts'')) ''text''"

section \<open>Example inputs\<close>

text \<open>A network that answers every call alike, and one whose first answer differs.\<close>

definition always :: "response \<Rightarrow> nat \<Rightarrow> fetch_result" where
  "always r i = Responded r"

definition first_then :: "response \<Rightarrow> response \<Rightarrow> nat \<Rightarrow> fetch_result" where
  "first_then a b i = (if i = 0 then Responded a else Responded b)"

definition text_body :: "json \<Rightarrow> json" where
  "text_body t =
     JObj [(''candidates'',
       JArr [JObj [(''content'', JObj [(''parts'', JArr [JObj [(''text'', t)]])])]])]"

definition text_response :: "json \<Rightarrow> response" where
  "text_response t = \<lparr>status = 200, statusText = ''OK'', json_result = Some (text_body t)\<rparr>"

definition error_response :: "int \<Rightarrow> string \<Rightarrow> json option \<Rightarrow> response" where
  "error_response code reason b = \<lparr>status = code, statusText = reason, json_result = b\<rparr>"

definition error_body :: "string \<Rightarrow> json" where
  "error_body m = JObj [(''error'', JObj [(''message'', JStr m)])]"

definition example_request :: request where
  "example_request = post ''https://example.test/generate'' (JObj [])"

text \<open>The trace of a retrieval with key \<^verbatim>\<open>key\<close>, prompt \<^verbatim>\<open>prompt\<close> and schema
  \<^verbatim>\<open>{}\<close> in which each phase needs one call.\<close>

definition example_trace1 :: "event list" where
  "example_trace1 =
     [Progress ''Step 1/2: Searching for grounded insights...'',
      Fetch (post (apiUrl ''key'') (searchPayload ''prompt''))]"

definition example_trace2 :: "string \<Rightarrow> event list" where
  "example_trace2 grounded =
     example_trace1 @
     [Progress ''Step 2/2: Analyzing and structuring data...'',
      Fetch (post (apiUrl ''key'') (jsonPayload (parseJsonPrompt grounded) (JObj [])))]"

text \<open>
  A platform for the examples: \<^verbatim>\<open>JSON.parse\<close> on four literals, every other text of the
  examples (the empty string, plain words) not being JSON; and the conversion to a string
  of the two values other than strings that the examples convert: the empty array, whose
  text is empty, and an object whose own \<^verbatim>\<open>toString\<close> is a string, which throws.
\<close>

definition example_parse :: "string \<Rightarrow> json option" where
  "example_parse s =
     (if s = ''true'' then Some (JBool True)
      else if s = ''null'' then Some JNull
      else if s = ''{}'' then Some (JObj [])
      else if s = ''[]'' then Some (JArr [])
      else None)"

definition example_conversion :: "json \<Rightarrow> error + string" where
  "example_conversion v = (case v of JArr [] \<Rightarrow> Inr [] | _ \<Rightarrow> Inl TypeError)"

definition example_runtime :: runtime where
  "example_runtime = \<lparr>JSON_parse = example_parse, ToString_other = example_conversion\<rparr>"

section \<open>Facts about the numbers\<close>

text \<open>
  A value with at most 53 significant bits within the range of exponents is a double and
  is rounded to itself; so the integers up to \<open>2 ^ 53\<close> are exact, a count of retries
  among them goes down by one with each \<^verbatim>\<open>retries - 1\<close>, and a delay among them is doubled
  exactly. Beyond: \<^verbatim>\<open>2 ** 54 - 1\<close> is \<open>2 ^ 54\<close> again, and the double of \<open>2 ^ 1023\<close> is
  \<^verbatim>\<open>Infinity\<close>.
\<close>

lemma round_half_even_of_int [simp]: "round_half_even (of_int n) = n"
  by (simp add: round_half_even_def)

lemma floor_log2_bounds:
  assumes "0 < x"
  shows "2 powi (floor_log2 x) \<le> x" and "x < 2 powi (floor_log2 x + 1)"
proof -
  obtain p q where pq: "quotient_of x = (p, q)" by (cases "quotient_of x")
  then have q: "0 < q" and x: "x = of_int p / of_int q"
    using quotient_of_denom_pos quotient_of_div by auto
  with assms have p: "0 < p"
    by (simp add: zero_less_divide_iff)
  define d where "d = bitlen p - bitlen q"
  have bp: "1 \<le> bitlen p" and bq: "1 \<le> bitlen q"
    using p q bitlen_eq_zero_iff [of p] bitlen_eq_zero_iff [of q] bitlen_nonneg [of p] bitlen_nonneg [of q]
    by linarith+
  have p1: "(2::rat) powi (bitlen p - 1) \<le> of_int p" and p2: "of_int p < (2::rat) powi (bitlen p)"
  proof -
    from bitlen_bounds [OF p] have "2 ^ nat (bitlen p - 1) \<le> p" and "p < 2 ^ nat (bitlen p)"
      by simp_all
    then have "rat_of_int (2 ^ nat (bitlen p - 1)) \<le> of_int p"
      and "rat_of_int p < of_int (2 ^ nat (bitlen p))"
      by (simp_all only: of_int_le_iff of_int_less_iff)
    then show "(2::rat) powi (bitlen p - 1) \<le> of_int p" and "of_int p < (2::rat) powi (bitlen p)"
      using bp by (simp_all add: power_int_nonneg_exp)
  qed
  have q1: "(2::rat) powi (bitlen q - 1) \<le> of_int q" and q2: "of_int q < (2::rat) powi (bitlen q)"
  proof -
    from bitlen_bounds [OF q] have "2 ^ nat (bitlen q - 1) \<le> q" and "q < 2 ^ nat (bitlen q)"
      by simp_all
    then have "rat_of_int (2 ^ nat (bitlen q - 1)) \<le> of_int q"
      and "rat_of_int q < of_int (2 ^ nat (bitlen q))"
      by (simp_all only: of_int_le_iff of_int_less_iff)
    then show "(2::rat) powi (bitlen q - 1) \<le> of_int q" and "of_int q < (2::rat) powi (bitlen q)"
      using bq by (simp_all add: power_int_nonneg_exp)
  qed
  have qpos: "(0::rat) < of_int q" using q by simp
  have up: "x < 2 powi (d + 1)"
  proof -
    have "of_int p < (2::rat) powi (d + 1) * 2 powi (bitlen q - 1)"
      using p2 by (simp add: d_def flip: power_int_add)
    also have "\<dots> \<le> 2 powi (d + 1) * of_int q"
      using q1 by (simp add: mult_left_mono)
    finally show ?thesis using qpos by (simp add: x pos_divide_less_eq)
  qed
  have lo: "2 powi (d - 1) < x"
  proof -
    have "(2::rat) powi (d - 1) * of_int q < 2 powi (d - 1) * 2 powi (bitlen q)"
      using q2 by (simp add: mult_strict_left_mono)
    also have "\<dots> = 2 powi (bitlen p - 1)"
      by (simp add: d_def flip: power_int_add)
    also have "\<dots> \<le> of_int p" by (rule p1)
    finally show ?thesis using qpos by (simp add: x pos_less_divide_eq)
  qed
  have fl: "floor_log2 x = (if 2 powi d \<le> x then d else d - 1)"
    by (simp add: floor_log2_def pq d_def Let_def)
  show "2 powi (floor_log2 x) \<le> x"
    using lo by (simp add: fl)
  show "x < 2 powi (floor_log2 x + 1)"
    using up by (simp add: fl)
qed

lemma round64_dyadic:
  assumes m: "\<bar>m\<bar> < 2 ^ 53" and k: "- 1074 \<le> k"
    and r: "\<bar>rat_of_int m * 2 powi k\<bar> < 2 ^ 1024"
  shows "round64 (of_int m * 2 powi k) = Finite (of_int m * 2 powi k)"
proof (cases "m = 0")
  case True
  then show ?thesis by (simp add: round64_def)
next
  case False
  define x where "x = rat_of_int m * 2 powi k"
  have ax: "\<bar>x\<bar> = of_int \<bar>m\<bar> * 2 powi k"
    by (simp add: x_def abs_mult)
  have pos: "0 < \<bar>x\<bar>" and nz: "x \<noteq> 0"
    using False by (simp_all add: x_def)
  define e0 where "e0 = floor_log2 \<bar>x\<bar>"
  have "rat_of_int \<bar>m\<bar> < of_int (2 ^ 53)"
    using m by (simp only: of_int_less_iff)
  then have "rat_of_int \<bar>m\<bar> < 2 powi 53"
    by simp
  then have "\<bar>x\<bar> < 2 powi 53 * 2 powi k"
    unfolding ax by (intro mult_strict_right_mono) simp_all
  also have "\<dots> = 2 powi (53 + k)"
    by (simp add: power_int_add)
  finally have "(2::rat) powi e0 < 2 powi (53 + k)"
    using floor_log2_bounds(1) [OF pos] by (simp add: e0_def)
  then have e0: "e0 < 53 + k"
    using power_int_increasing [of "53 + k" e0 "2::rat"] by (cases "e0 < 53 + k") auto
  define e where "e = max e0 (- 1022)"
  have ek: "e - 52 \<le> k"
    using e0 k by (simp add: e_def)
  define j where "j = nat (k - (e - 52))"
  have "(2::rat) powi k = 2 powi ((e - 52) + int j)"
    using ek by (simp add: j_def)
  also have "\<dots> = 2 powi (e - 52) * 2 ^ j"
    by (simp add: power_int_add)
  finally have pk: "(2::rat) powi k = 2 powi (e - 52) * 2 ^ j" .
  have q: "\<bar>x\<bar> / 2 powi (e - 52) = of_int (\<bar>m\<bar> * 2 ^ j)"
    by (simp add: ax pk)
  have y: "of_int (round_half_even (\<bar>x\<bar> / 2 powi (e - 52))) * 2 powi (e - 52) = \<bar>x\<bar>"
    unfolding q round_half_even_of_int by (simp add: ax pk)
  have "round64 x = Finite (if 0 < x then \<bar>x\<bar> else - \<bar>x\<bar>)"
    using nz r unfolding round64_def Let_def e0_def [symmetric] e_def [symmetric] y x_def [symmetric]
    by simp
  also have "(if 0 < x then \<bar>x\<bar> else - \<bar>x\<bar>) = x"
    by simp
  finally show ?thesis by (simp add: x_def)
qed

lemma round64_int:
  assumes "\<bar>n\<bar> \<le> 2 ^ 53"
  shows "round64 (of_int n) = Finite (of_int n)"
proof (cases "\<bar>n\<bar> < 2 ^ 53")
  case True
  have "\<bar>rat_of_int n\<bar> < of_int (2 ^ 53)"
    using True by (simp only: of_int_less_iff flip: of_int_abs)
  also have "\<dots> < 2 ^ 1024"
    by simp
  finally show ?thesis
    using round64_dyadic [of n 0] True by simp
next
  case False
  with assms have "n = 2 ^ 53 \<or> n = - (2 ^ 53)"
    by linarith
  then show ?thesis
    using round64_dyadic [of 1 53] round64_dyadic [of "- 1" 53] by auto
qed

lemma floor_log2_eq:
  assumes "2 powi k \<le> x" and "x < 2 powi (k + 1)"
  shows "floor_log2 x = k"
proof -
  have pos: "0 < x"
    using assms(1) zero_less_power_int [of "2::rat" k] by linarith
  note b = floor_log2_bounds [OF pos]
  have "(2::rat) powi floor_log2 x < 2 powi (k + 1)"
    using b(1) assms(2) by linarith
  then have 1: "floor_log2 x < k + 1"
    using power_int_increasing [of "k + 1" "floor_log2 x" "2::rat"]
    by (cases "floor_log2 x < k + 1") auto
  have "(2::rat) powi k < 2 powi (floor_log2 x + 1)"
    using b(2) assms(1) by linarith
  then have 2: "k < floor_log2 x + 1"
    using power_int_increasing [of "floor_log2 x + 1" k "2::rat"]
    by (cases "k < floor_log2 x + 1") auto
  from 1 2 show ?thesis by linarith
qed

lemma greater_zero_nat: "greater_zero (Finite (of_nat n)) \<longleftrightarrow> 0 < n"
  by (simp add: greater_zero_def)

lemma minus_one_Suc:
  assumes "Suc n \<le> 2 ^ 53"
  shows "minus_one (Finite (of_nat (Suc n))) = Finite (of_nat n)"
proof -
  from assms have "n \<le> 2 ^ 53"
    by simp
  then have "int n \<le> int (2 ^ 53)"
    by (rule of_nat_mono)
  then have "\<bar>int n\<bar> \<le> 2 ^ 53"
    by simp
  from round64_int [OF this] show ?thesis
    by (simp add: minus_one_def)
qed

lemma minus_one_numeral [simp]:
  "minus_one (Finite 3) = Finite 2" "minus_one (Finite 2) = Finite 1"
  "minus_one (Finite 1) = Finite 0"
  using minus_one_Suc [of 2] minus_one_Suc [of 1] minus_one_Suc [of 0] by simp_all

lemma minus_one_half: "minus_one (Finite (1 / 2)) = Finite (- (1 / 2))"
  using round64_dyadic [of "- 1" "- 1"] by (simp add: minus_one_def)

lemma minus_one_stuck: "minus_one (Finite (2 ^ 54)) = Finite (2 ^ 54)"
proof -
  have e: "floor_log2 (2 ^ 54 - 1) = 53"
    by (rule floor_log2_eq) simp_all
  have f: "\<lfloor>((2::rat) ^ 54 - 1) / 2\<rfloor> = 2 ^ 53 - 1"
    by (rule floor_unique) simp_all
  have r: "round_half_even ((2 ^ 54 - 1) / 2) = 2 ^ 53"
    unfolding round_half_even_def Let_def f by simp
  show ?thesis
    using e r by (simp add: minus_one_def round64_def Let_def)
qed

lemma times_two_int:
  assumes "\<bar>d\<bar> * 2 \<le> 2 ^ 53"
  shows "times_two (Finite (of_int d)) = Finite (of_int (d * 2))"
proof -
  have "\<bar>d * 2\<bar> \<le> 2 ^ 53"
    using assms by (simp add: abs_mult)
  from round64_int [OF this] show ?thesis
    by (simp add: times_two_def)
qed

lemma times_two_funpow_int:
  "\<bar>d\<bar> * 2 ^ i \<le> 2 ^ 53 \<Longrightarrow> (times_two ^^ i) (Finite (of_int d)) = Finite (of_int (d * 2 ^ i))"
proof (induction i arbitrary: d)
  case 0
  then show ?case by simp
next
  case (Suc i)
  have "\<bar>d\<bar> * 2 \<le> \<bar>d\<bar> * 2 ^ Suc i"
    by (intro mult_left_mono) (simp_all add: self_le_power)
  with Suc.prems have a: "\<bar>d\<bar> * 2 \<le> 2 ^ 53"
    by linarith
  from Suc.prems have b: "\<bar>d * 2\<bar> * 2 ^ i \<le> 2 ^ 53"
    by (simp add: abs_mult mult.assoc)
  from Suc.IH [OF b] times_two_int [OF a] show ?case
    by (simp add: funpow_swap1 mult.assoc)
qed

lemma times_two_numeral [simp]:
  "times_two (Finite 1000) = Finite 2000" "times_two (Finite 2000) = Finite 4000"
  "times_two (Finite 4000) = Finite 8000"
  using times_two_int [of 1000] times_two_int [of 2000] times_two_int [of 4000] by simp_all

lemma times_two_overflow: "times_two (Finite (2 ^ 1023)) = PosInf"
proof -
  have e: "floor_log2 (2 ^ 1023 * 2) = 1024"
    by (rule floor_log2_eq) simp_all
  have "((2::rat) ^ 1023 * 2) / 2 ^ 972 = of_int (2 ^ 52)"
    by simp
  then have r: "round_half_even ((2 ^ 1023 * 2) / 2 ^ 972) = 2 ^ 52"
    by (simp only: round_half_even_of_int)
  show ?thesis
    using e r by (simp add: times_two_def round64_def Let_def)
qed

section \<open>Facts about fetchWithBackoff\<close>

lemma requests_append [simp]: "requests (xs @ ys) = requests xs @ requests ys"
  by (induction xs rule: requests.induct) simp_all

lemma delays_append [simp]: "delays (xs @ ys) = delays xs @ delays ys"
  by (induction xs rule: delays.induct) simp_all

lemma progress_append [simp]: "progress (xs @ ys) = progress xs @ progress ys"
  by (induction xs rule: progress.induct) simp_all

lemma fetches_append [simp]: "fetches (xs @ ys) = fetches xs + fetches ys"
  by (simp add: fetches_def)

lemma try_block_ok:
  "ok r \<Longrightarrow> try_block rt (Responded r) retries =
     (Return (case json_result r of None \<Rightarrow> Inl SyntaxError | Some v \<Rightarrow> Inr v), [])"
  by (simp add: try_block_def)

lemma try_block_429:
  "status r = 429 \<Longrightarrow> greater_zero retries \<Longrightarrow> try_block rt (Responded r) retries = (Retry, [])"
  by (simp add: try_block_def ok_def)

lemma try_block_error:
  "\<not> ok r \<Longrightarrow> status r \<noteq> 429 \<or> \<not> greater_zero retries \<Longrightarrow>
   try_block rt (Responded r) retries =
     (Throw (api_error rt (status r) (snd (error_details r))),
      [ConsoleError (fst (error_details r))])"
  by (auto simp: try_block_def split: prod.splits)

lemma try_block_events:
  "try_block rt settled retries = (out, evs) \<Longrightarrow>
   requests evs = [] \<and> delays evs = [] \<and> progress evs = []"
  by (auto simp: try_block_def split: fetch_result.splits if_splits prod.splits)

lemma try_block_Retry: "try_block rt settled retries = (Retry, evs) \<Longrightarrow> greater_zero retries"
  by (auto simp: try_block_def split: fetch_result.splits if_splits prod.splits)

lemma fwb_Return:
  "try_block rt (env (fetches tr)) retries = (Return res, evs) \<Longrightarrow>
   fetchWithBackoff rt env req retries delay tr = Some (res, tr @ Fetch req # evs)"
  by (subst fetchWithBackoff.simps) simp

lemma fwb_Retry:
  "try_block rt (env (fetches tr)) retries = (Retry, evs) \<Longrightarrow>
   fetchWithBackoff rt env req retries delay tr =
   fetchWithBackoff rt env req (minus_one retries) (times_two delay)
     (tr @ Fetch req # evs @ [Delay delay])"
  by (subst fetchWithBackoff.simps) simp

lemma fwb_Throw_retry:
  "try_block rt (env (fetches tr)) retries = (Throw e, evs) \<Longrightarrow> greater_zero retries \<Longrightarrow>
   fetchWithBackoff rt env req retries delay tr =
   fetchWithBackoff rt env req (minus_one retries) (times_two delay)
     (tr @ Fetch req # evs @ [Delay delay])"
  by (subst fetchWithBackoff.simps) simp

lemma fwb_Throw_final:
  "try_block rt (env (fetches tr)) retries = (Throw e, evs) \<Longrightarrow> \<not> greater_zero retries \<Longrightarrow>
   fetchWithBackoff rt env req retries delay tr = Some (Inl e, tr @ Fetch req # evs)"
  by (subst fetchWithBackoff.simps) simp

lemma doubling_Cons:
  "d # map (\<lambda>i. (times_two ^^ i) (times_two d)) [0..<k] = map (\<lambda>i. (times_two ^^ i) d) [0..<Suc k]"
proof -
  have "map (\<lambda>i. (times_two ^^ i) d) [0..<Suc k]
      = (times_two ^^ 0) d # map (\<lambda>i. (times_two ^^ i) d) (map Suc [0..<k])"
    by (simp only: map_Suc_upt upt_conv_Cons [of 0 "Suc k"] zero_less_Suc list.map if_True)
  also have "\<dots> = d # map (\<lambda>i. (times_two ^^ i) (times_two d)) [0..<k]"
    by (simp add: comp_def funpow_swap1)
  finally show ?thesis by simp
qed

lemma fwb_no_retries:
  assumes "\<not> greater_zero retries"
  shows "\<exists>res evs. fetchWithBackoff rt env req retries delay tr = Some (res, tr @ Fetch req # evs)
     \<and> requests evs = [] \<and> delays evs = [] \<and> progress evs = []"
proof -
  obtain out evs where tb: "try_block rt (env (fetches tr)) retries = (out, evs)"
    by (cases "try_block rt (env (fetches tr)) retries")
  note ev = try_block_events [OF tb]
  have "\<exists>res. fetchWithBackoff rt env req retries delay tr = Some (res, tr @ Fetch req # evs)"
  proof (cases out)
    case Retry
    with tb assms show ?thesis using try_block_Retry by fastforce
  next
    case (Throw e)
    with tb assms show ?thesis by (simp add: fwb_Throw_final)
  next
    case (Return res)
    with tb show ?thesis by (simp add: fwb_Return)
  qed
  with ev show ?thesis by blast
qed

lemma fwb_shape:
  assumes "n \<le> 2 ^ 53"
  shows "\<exists>res T k. fetchWithBackoff rt env req (Finite (of_nat n)) delay tr = Some (res, tr @ T)
     \<and> requests T = replicate (Suc k) req
     \<and> delays T = map (\<lambda>i. (times_two ^^ i) delay) [0..<k]
     \<and> progress T = []
     \<and> k \<le> n"
  using assms
proof (induction n arbitrary: delay tr)
  case 0
  have "\<not> greater_zero (Finite (of_nat 0))" by (simp add: greater_zero_def)
  from fwb_no_retries [OF this, of rt env req delay tr]
  obtain res evs where "fetchWithBackoff rt env req (Finite (of_nat 0)) delay tr
      = Some (res, tr @ Fetch req # evs)" "requests evs = []" "delays evs = []" "progress evs = []"
    by blast
  then show ?case
    by (intro exI [of _ res] exI [of _ "Fetch req # evs"] exI [of _ 0]) simp
next
  case (Suc n)
  then have le: "n \<le> 2 ^ 53" by simp
  have pos: "greater_zero (Finite (of_nat (Suc n)))" by (simp add: greater_zero_def)
  note dec = minus_one_Suc [OF Suc.prems]
  obtain out evs where tb: "try_block rt (env (fetches tr)) (Finite (of_nat (Suc n))) = (out, evs)"
    by (cases "try_block rt (env (fetches tr)) (Finite (of_nat (Suc n)))")
  note ev = try_block_events [OF tb]
  let ?tr = "tr @ Fetch req # evs @ [Delay delay]"
  from Suc.IH [OF le, of "times_two delay" ?tr]
  obtain res T k where T:
    "fetchWithBackoff rt env req (Finite (of_nat n)) (times_two delay) ?tr = Some (res, ?tr @ T)"
    "requests T = replicate (Suc k) req"
    "delays T = map (\<lambda>i. (times_two ^^ i) (times_two delay)) [0..<k]"
    "progress T = []" "k \<le> n"
    by blast
  have rec: "\<exists>res T k.
       fetchWithBackoff rt env req (Finite (of_nat n)) (times_two delay) ?tr = Some (res, tr @ T)
     \<and> requests T = replicate (Suc k) req
     \<and> delays T = map (\<lambda>i. (times_two ^^ i) delay) [0..<k]
     \<and> progress T = []
     \<and> k \<le> Suc n"
    using T ev
    by (intro exI [of _ res] exI [of _ "Fetch req # evs @ [Delay delay] @ T"] exI [of _ "Suc k"])
       (simp add: doubling_Cons del: upt_Suc)
  show ?case
  proof (cases out)
    case Retry
    with tb rec dec show ?thesis by (simp add: fwb_Retry)
  next
    case (Throw e)
    with tb pos rec dec show ?thesis by (simp add: fwb_Throw_retry)
  next
    case (Return res')
    with tb have "fetchWithBackoff rt env req (Finite (of_nat (Suc n))) delay tr
        = Some (res', tr @ Fetch req # evs)"
      by (simp add: fwb_Return)
    with ev show ?thesis
      by (intro exI [of _ res'] exI [of _ "Fetch req # evs"] exI [of _ 0]) simp
  qed
qed

lemma api_error_string [simp]: "api_error rt code (JStr s) = ApiError code s"
  by (simp add: api_error_def ToString_def)

lemma fwb_response_ok:
  assumes "env (fetches tr) = Responded r" and "ok r"
  shows "fetchWithBackoff rt env req retries delay tr =
    Some (case json_result r of None \<Rightarrow> Inl SyntaxError | Some v \<Rightarrow> Inr v, tr @ [Fetch req])"
proof -
  from assms have "try_block rt (env (fetches tr)) retries =
      (Return (case json_result r of None \<Rightarrow> Inl SyntaxError | Some v \<Rightarrow> Inr v), [])"
    by (simp add: try_block_ok)
  then show ?thesis by (simp add: fwb_Return)
qed

lemma fwb_response_429:
  assumes "env (fetches tr) = Responded r" and "status r = 429" and "greater_zero retries"
  shows "fetchWithBackoff rt env req retries delay tr =
    fetchWithBackoff rt env req (minus_one retries) (times_two delay) (tr @ [Fetch req, Delay delay])"
proof -
  from assms have "try_block rt (env (fetches tr)) retries = (Retry, [])"
    by (simp add: try_block_429)
  then show ?thesis by (simp add: fwb_Retry)
qed

lemma fwb_response_error_final:
  assumes "env (fetches tr) = Responded r" and "\<not> ok r" and "\<not> greater_zero retries"
  shows "fetchWithBackoff rt env req retries delay tr =
    Some (Inl (api_error rt (status r) (snd (error_details r))),
          tr @ [Fetch req, ConsoleError (fst (error_details r))])"
proof -
  from assms have "try_block rt (env (fetches tr)) retries =
      (Throw (api_error rt (status r) (snd (error_details r))),
       [ConsoleError (fst (error_details r))])"
    by (simp add: try_block_error)
  then show ?thesis using assms(3) by (simp add: fwb_Throw_final)
qed

lemma fwb_response_error_retry:
  assumes "env (fetches tr) = Responded r" and "\<not> ok r" and "status r \<noteq> 429"
    and "greater_zero retries"
  shows "fetchWithBackoff rt env req retries delay tr =
    fetchWithBackoff rt env req (minus_one retries) (times_two delay)
      (tr @ [Fetch req, ConsoleError (fst (error_details r)), Delay delay])"
proof -
  from assms have "try_block rt (env (fetches tr)) retries =
      (Throw (api_error rt (status r) (snd (error_details r))),
       [ConsoleError (fst (error_details r))])"
    by (simp add: try_block_error)
  then show ?thesis using assms(4) by (simp add: fwb_Throw_retry)
qed

lemma error_details_unparseable:
  "json_result r = None \<Longrightarrow> error_details r = (JNull, JStr (statusText r))"
  by (simp add: error_details_def)

lemma error_details_message:
  "json_result r = Some b \<Longrightarrow> opt_member (opt_member (Some b) ''error'') ''message'' = Some m \<Longrightarrow>
   truthy m \<Longrightarrow> error_details r = (b, m)"
  by (simp add: error_details_def or_else_def)

lemma error_details_no_message:
  "json_result r = Some b \<Longrightarrow> \<not> truthy_opt (opt_member (opt_member (Some b) ''error'') ''message'') \<Longrightarrow>
   error_details r = (b, JStr (statusText r))"
  by (auto simp: error_details_def or_else_def truthy_opt_def split: option.splits)

lemma backoff_Cons:
  "concat (map (\<lambda>i. [Fetch req, Delay ((times_two ^^ i) d)]) [0..<Suc k])
   = Fetch req # Delay d # concat (map (\<lambda>i. [Fetch req, Delay ((times_two ^^ i) (times_two d))]) [0..<k])"
proof -
  have "map (\<lambda>i. [Fetch req, Delay ((times_two ^^ i) d)]) [0..<Suc k]
      = [Fetch req, Delay ((times_two ^^ 0) d)]
        # map (\<lambda>i. [Fetch req, Delay ((times_two ^^ i) d)]) (map Suc [0..<k])"
    by (simp only: map_Suc_upt upt_conv_Cons [of 0 "Suc k"] zero_less_Suc list.map if_True)
  then show ?thesis by (simp add: comp_def funpow_swap1)
qed

lemma fwb_all_429:
  assumes "\<forall>i. status (rs i) = 429" and "n \<le> 2 ^ 53"
  shows "fetchWithBackoff rt (\<lambda>i. Responded (rs i)) req (Finite (of_nat n)) delay tr =
     Some (Inl (api_error rt 429 (snd (error_details (rs (fetches tr + n))))),
      tr @ concat (map (\<lambda>i. [Fetch req, Delay ((times_two ^^ i) delay)]) [0..<n])
         @ [Fetch req, ConsoleError (fst (error_details (rs (fetches tr + n))))])"
  using assms(2)
proof (induction n arbitrary: delay tr)
  case 0
  have "\<not> ok (rs (fetches tr))" using assms(1) by (simp add: ok_def)
  moreover have "\<not> greater_zero (Finite (of_nat 0))" by (simp add: greater_zero_def)
  ultimately show ?case
    using fwb_response_error_final
      [where env = "\<lambda>i. Responded (rs i)" and tr = tr and r = "rs (fetches tr)"
         and retries = "Finite (of_nat 0)"]
      assms(1)
    by simp
next
  case (Suc n)
  then have le: "n \<le> 2 ^ 53" by simp
  have pos: "greater_zero (Finite (of_nat (Suc n)))" by (simp add: greater_zero_def)
  have "fetchWithBackoff rt (\<lambda>i. Responded (rs i)) req (Finite (of_nat (Suc n))) delay tr =
    fetchWithBackoff rt (\<lambda>i. Responded (rs i)) req (Finite (of_nat n)) (times_two delay)
      (tr @ [Fetch req, Delay delay])"
    using fwb_response_429
      [where env = "\<lambda>i. Responded (rs i)" and tr = tr and r = "rs (fetches tr)"
         and retries = "Finite (of_nat (Suc n))"]
      assms(1) pos minus_one_Suc [OF Suc.prems]
    by simp
  also note Suc.IH [OF le, of "times_two delay" "tr @ [Fetch req, Delay delay]"]
  finally show ?case
    by (simp add: backoff_Cons fetches_def del: upt_Suc)
qed

lemma always_eq: "always r = (\<lambda>i. Responded r)"
  by (simp add: always_def fun_eq_iff)

lemma delays_backoff:
  "delays (concat (map (\<lambda>i. [Fetch req, Delay (f i)]) xs)) = map f xs"
  by (induction xs) simp_all

lemma requests_backoff:
  "requests (concat (map (\<lambda>i. [Fetch req, Delay (f i)]) xs)) = replicate (length xs) req"
  by (induction xs) simp_all

lemma try_block_Return:
  "try_block rt settled retries = (Return res, evs) \<Longrightarrow> \<exists>r. settled = Responded r \<and> ok r"
  by (auto simp: try_block_def split: fetch_result.splits if_splits prod.splits)

lemma fwb_never_settles:
  assumes "fetchWithBackoff rt env req retries delay tr = Some y"
    and "greater_zero retries" and "minus_one retries = retries"
    and "\<forall>i r. env i = Responded r \<longrightarrow> \<not> ok r"
  shows False
proof -
  have "greater_zero retries \<longrightarrow> minus_one retries = retries
      \<longrightarrow> (\<forall>i r. env i = Responded r \<longrightarrow> \<not> ok r) \<longrightarrow> False"
  proof (rule fetchWithBackoff.raw_induct
      [where P = "\<lambda>rt env req retries delay tr y.
         greater_zero retries \<longrightarrow> minus_one retries = retries
           \<longrightarrow> (\<forall>i r. env i = Responded r \<longrightarrow> \<not> ok r) \<longrightarrow> False",
       OF _ assms(1)], goal_cases)
    case (1 fwb rt env req retries delay tr y)
    show ?case
    proof (intro impI)
      assume pos: "greater_zero retries" and stuck: "minus_one retries = retries"
        and fail: "\<forall>i r. env i = Responded r \<longrightarrow> \<not> ok r"
      obtain out evs where tb: "try_block rt (env (fetches tr)) retries = (out, evs)"
        by (cases "try_block rt (env (fetches tr)) retries")
      have "\<exists>tr'. fwb rt env req (minus_one retries) (times_two delay) tr' = Some y"
      proof (cases out)
        case Retry
        with 1(2) tb show ?thesis by auto
      next
        case (Throw e)
        with 1(2) tb pos show ?thesis by auto
      next
        case (Return res)
        with tb fail try_block_Return show ?thesis by blast
      qed
      then obtain tr' where "fwb rt env req (minus_one retries) (times_two delay) tr' = Some y"
        by blast
      from 1(1) [OF this] pos stuck fail show False
        by simp
    qed
  qed
  with assms(2-4) show False by blast
qed

lemma stuck_retries_never_settle:
  "fetchWithBackoff rt (always (error_response 500 ''Internal Server Error'' None)) req
     (Finite (2 ^ 54)) delay tr = None"
proof (cases "fetchWithBackoff rt (always (error_response 500 ''Internal Server Error'' None)) req
     (Finite (2 ^ 54)) delay tr")
  case None
  then show ?thesis .
next
  case (Some y)
  have "greater_zero (Finite (2 ^ 54))"
    by (simp add: greater_zero_def)
  from fwb_never_settles [OF Some this minus_one_stuck] show ?thesis
    by (simp add: always_def error_response_def ok_def)
qed

lemmas fwb_eval =
  fetchWithBackoff.simps try_block_def error_details_def ok_def always_def
  error_response_def fetches_def greater_zero_def

section \<open>The claims about fetchWithBackoff\<close>

text \<open>
  Claim C1: a response that is not 2xx and not 429 is a terminal failure, with no further
  call of \<^verbatim>\<open>fetch\<close> whatever retries remain. The code departs from this: its
  \<^verbatim>\<open>throw new Error(...)\<close> stands inside the \<^verbatim>\<open>try\<close> beside the branch for status 429, so
  the \<^verbatim>\<open>catch\<close> of the same function receives the error and retries it as it retries a
  failure of the network. Evaluated on a status 500 for every call, with the default
  three retries: four calls of \<^verbatim>\<open>fetch\<close> and waits of 1000, 2000 and 4000 before the error
  reaches the caller.
\<close>

theorem other_http_error_is_retried:
  "always (error_response 500 ''Internal Server Error'' None) (fetches [])
     = Responded (error_response 500 ''Internal Server Error'' None)
   \<and> \<not> ok (error_response 500 ''Internal Server Error'' None)
   \<and> status (error_response 500 ''Internal Server Error'' None) \<noteq> 429
   \<and> fetchWithBackoff example_runtime (always (error_response 500 ''Internal Server Error'' None))
         example_request (Finite 3) (Finite 1000) []
       = Some (Inl (ApiError 500 ''Internal Server Error''),
          [Fetch example_request, ConsoleError JNull, Delay (Finite 1000),
           Fetch example_request, ConsoleError JNull, Delay (Finite 2000),
           Fetch example_request, ConsoleError JNull, Delay (Finite 4000),
           Fetch example_request, ConsoleError JNull])"
  by (simp add: fwb_eval)

text \<open>
  Claim C2, as amended. A 429 response with \<^verbatim>\<open>retries > 0\<close> leads to one wait of \<open>delay\<close>
  and the call with \<^verbatim>\<open>retries - 1\<close> and \<^verbatim>\<open>delay * 2\<close>, both in the arithmetic of doubles.
  When \<open>retries\<close> is an integer \<open>n\<close> from 0 to \<open>2 ^ 53\<close> and every response is a 429, the trace
  is \<open>n\<close> times a call of \<^verbatim>\<open>fetch\<close> and a wait, the waits being \<open>delay\<close> doubled 0, 1, 2, ...
  times, then a last call of \<^verbatim>\<open>fetch\<close> with no retries left, whose error goes to the
  caller. For an integer \<open>delay\<close> the doubling is exact, \<open>delay * 2 ^ i\<close>, as long as that
  stays within \<open>2 ^ 53\<close>. On any network the waits of such a call are these, one between
  two successive calls of \<^verbatim>\<open>fetch\<close>, and at most \<open>n\<close> of them. The counterexample is
  \<^verbatim>\<open>retries = Infinity\<close>: the call that keeps receiving 429 never settles, so no error ever
  reaches the caller.
\<close>

theorem rate_limited_retries_double_the_delay:
  "(\<forall>r. env (fetches tr) = Responded r \<longrightarrow> status r = 429 \<longrightarrow> greater_zero retries \<longrightarrow>
      fetchWithBackoff rt env req retries delay tr =
      fetchWithBackoff rt env req (minus_one retries) (times_two delay)
        (tr @ [Fetch req, Delay delay]))
   \<and> ((\<forall>i. status (rs i) = 429) \<longrightarrow> n \<le> 2 ^ 53 \<longrightarrow>
      fetchWithBackoff rt (\<lambda>i. Responded (rs i)) req (Finite (of_nat n)) delay tr =
        Some (Inl (api_error rt 429 (snd (error_details (rs (fetches tr + n))))),
         tr @ concat (map (\<lambda>i. [Fetch req, Delay ((times_two ^^ i) delay)]) [0..<n])
            @ [Fetch req, ConsoleError (fst (error_details (rs (fetches tr + n))))]))
   \<and> (\<bar>d\<bar> * 2 ^ i \<le> 2 ^ 53 \<longrightarrow> (times_two ^^ i) (Finite (of_int d)) = Finite (of_int (d * 2 ^ i)))
   \<and> (n \<le> 2 ^ 53 \<longrightarrow>
        (\<exists>res T k. fetchWithBackoff rt env req (Finite (of_nat n)) delay tr = Some (res, tr @ T)
          \<and> requests T = replicate (Suc k) req
          \<and> delays T = map (\<lambda>i. (times_two ^^ i) delay) [0..<k]
          \<and> k \<le> n))"
proof (intro conjI allI impI)
  fix r
  assume "env (fetches tr) = Responded r" "status r = 429" "greater_zero retries"
  then show "fetchWithBackoff rt env req retries delay tr =
      fetchWithBackoff rt env req (minus_one retries) (times_two delay)
        (tr @ [Fetch req, Delay delay])"
    by (rule fwb_response_429)
next
  assume "\<forall>i. status (rs i) = 429" "n \<le> 2 ^ 53"
  then show "fetchWithBackoff rt (\<lambda>i. Responded (rs i)) req (Finite (of_nat n)) delay tr =
        Some (Inl (api_error rt 429 (snd (error_details (rs (fetches tr + n))))),
         tr @ concat (map (\<lambda>i. [Fetch req, Delay ((times_two ^^ i) delay)]) [0..<n])
            @ [Fetch req, ConsoleError (fst (error_details (rs (fetches tr + n))))])"
    by (rule fwb_all_429)
next
  assume "\<bar>d\<bar> * 2 ^ i \<le> 2 ^ 53"
  then show "(times_two ^^ i) (Finite (of_int d)) = Finite (of_int (d * 2 ^ i))"
    by (rule times_two_funpow_int)
next
  assume "n \<le> 2 ^ 53"
  from fwb_shape [OF this, of rt env req delay tr]
  show "\<exists>res T k. fetchWithBackoff rt env req (Finite (of_nat n)) delay tr = Some (res, tr @ T)
          \<and> requests T = replicate (Suc k) req
          \<and> delays T = map (\<lambda>i. (times_two ^^ i) delay) [0..<k]
          \<and> k \<le> n"
    by blast
qed

theorem rate_limited_retries_double_the_delay_witness:
  "status (error_response 429 ''Too Many Requests'' None) = 429 \<and> greater_zero (Finite 2)
   \<and> (2::nat) \<le> 2 ^ 53 \<and> \<bar>1000::int\<bar> * 2 ^ 1 \<le> 2 ^ 53
   \<and> fetchWithBackoff example_runtime (always (error_response 429 ''Too Many Requests'' None))
        example_request (Finite 2) (Finite 1000) []
     = fetchWithBackoff example_runtime (always (error_response 429 ''Too Many Requests'' None))
         example_request (minus_one (Finite 2)) (times_two (Finite 1000))
         [Fetch example_request, Delay (Finite 1000)]
   \<and> fetchWithBackoff example_runtime (always (error_response 429 ''Too Many Requests'' None))
        example_request (Finite 2) (Finite 1000) []
     = Some (Inl (ApiError 429 ''Too Many Requests''),
        [Fetch example_request, Delay (Finite 1000), Fetch example_request, Delay (Finite 2000),
         Fetch example_request, ConsoleError JNull])
   \<and> (times_two ^^ 1) (Finite 1000) = Finite 2000"
  using rate_limited_retries_double_the_delay
    [where env = "always (error_response 429 ''Too Many Requests'' None)" and tr = "[]"
       and retries = "Finite 2" and delay = "Finite 1000" and req = example_request
       and rs = "\<lambda>i. error_response 429 ''Too Many Requests'' None" and n = 2
       and rt = example_runtime and d = 1000 and i = 1]
  by (auto simp add: always_eq error_response_def error_details_def upt_conv_Cons
      greater_zero_def)

theorem rate_limited_forever_counterexample:
  "always (error_response 429 ''Too Many Requests'' None) (fetches [])
     = Responded (error_response 429 ''Too Many Requests'' None)
   \<and> status (error_response 429 ''Too Many Requests'' None) = 429
   \<and> greater_zero PosInf
   \<and> fetchWithBackoff example_runtime (always (error_response 429 ''Too Many Requests'' None))
        example_request PosInf (Finite 1000) [] = None"
proof -
  have "fetchWithBackoff example_runtime (always (error_response 429 ''Too Many Requests'' None))
        example_request PosInf (Finite 1000) [] = None"
  proof (cases "fetchWithBackoff example_runtime
      (always (error_response 429 ''Too Many Requests'' None)) example_request PosInf (Finite 1000) []")
    case None
    then show ?thesis .
  next
    case (Some y)
    from fwb_never_settles [OF this] show ?thesis
      by (simp add: always_def error_response_def ok_def greater_zero_def minus_one_def)
  qed
  then show ?thesis
    by (simp add: always_def error_response_def greater_zero_def)
qed

text \<open>
  Claim C3. With \<^verbatim>\<open>retries = 0\<close> the call makes exactly one call of \<^verbatim>\<open>fetch\<close> and waits
  for no delay, whatever that call settles to: the trace grows by the one \<open>Fetch\<close> event
  and by events that are neither a call of \<^verbatim>\<open>fetch\<close> nor a wait.
\<close>

theorem no_retries_one_attempt_no_delay:
  "\<exists>res evs. fetchWithBackoff rt env req (Finite 0) delay tr = Some (res, tr @ Fetch req # evs)
     \<and> requests evs = [] \<and> delays evs = []
     \<and> fetches (tr @ Fetch req # evs) = fetches tr + 1
     \<and> delays (tr @ Fetch req # evs) = delays tr"
proof -
  have "\<not> greater_zero (Finite 0)" by (simp add: greater_zero_def)
  from fwb_no_retries [OF this, of rt env req delay tr] show ?thesis
    by (auto simp: fetches_def)
qed

text \<open>
  Claim C4, as amended. For a response that is not 2xx and is not retried (\<open>retries\<close> not
  greater than 0): when the body is not parseable JSON the call still fails with the
  error of the status, and its message is the status text; when the body parses and
  \<^verbatim>\<open>error.message\<close> is a non-empty string, that string is the message; when it is another
  truthy value, the message is its conversion to a string, and when that conversion
  throws (an object whose own \<^verbatim>\<open>toString\<close> is not callable) the call fails with the
  TypeError of the conversion; when \<^verbatim>\<open>error.message\<close> is missing or falsy (the empty string,
  \<^verbatim>\<open>null\<close>, \<^verbatim>\<open>0\<close>, \<^verbatim>\<open>false\<close>), the \<^verbatim>\<open>||\<close> falls back to the status text. The counterexample
  is a body whose \<^verbatim>\<open>error.message\<close> is the empty string.
\<close>

theorem error_message_prefers_truthy_nested_message:
  assumes "env (fetches tr) = Responded r" and "\<not> ok r" and "\<not> greater_zero retries"
  shows "(json_result r = None \<longrightarrow>
            fetchWithBackoff rt env req retries delay tr =
              Some (Inl (ApiError (status r) (statusText r)), tr @ [Fetch req, ConsoleError JNull]))
       \<and> (json_result r = Some b \<longrightarrow>
            opt_member (opt_member (Some b) ''error'') ''message'' = Some (JStr s) \<longrightarrow> s \<noteq> [] \<longrightarrow>
            fetchWithBackoff rt env req retries delay tr =
              Some (Inl (ApiError (status r) s), tr @ [Fetch req, ConsoleError b]))
       \<and> (json_result r = Some b \<longrightarrow>
            opt_member (opt_member (Some b) ''error'') ''message'' = Some m \<longrightarrow> truthy m \<longrightarrow>
            fetchWithBackoff rt env req retries delay tr =
              Some (Inl (case ToString rt (Some m) of
                           Inl e \<Rightarrow> e
                         | Inr message \<Rightarrow> ApiError (status r) message),
                    tr @ [Fetch req, ConsoleError b]))
       \<and> (json_result r = Some b \<longrightarrow>
            \<not> truthy_opt (opt_member (opt_member (Some b) ''error'') ''message'') \<longrightarrow>
            fetchWithBackoff rt env req retries delay tr =
              Some (Inl (ApiError (status r) (statusText r)), tr @ [Fetch req, ConsoleError b]))"
  using assms
  by (simp add: fwb_response_error_final error_details_unparseable error_details_message
      error_details_no_message api_error_def [where detailedMessage = m])

theorem error_message_prefers_truthy_nested_message_witness:
  "\<not> ok (error_response 503 ''Service Unavailable'' None) \<and> \<not> greater_zero (Finite 0)
   \<and> fetchWithBackoff example_runtime (always (error_response 503 ''Service Unavailable'' None))
        example_request (Finite 0) (Finite 1000) []
       = Some (Inl (ApiError 503 ''Service Unavailable''), [Fetch example_request, ConsoleError JNull])
   \<and> opt_member (opt_member (Some (error_body ''API key not valid'')) ''error'') ''message''
       = Some (JStr ''API key not valid'')
   \<and> fetchWithBackoff example_runtime
        (always (error_response 400 ''Bad Request'' (Some (error_body ''API key not valid''))))
        example_request (Finite 0) (Finite 1000) []
       = Some (Inl (ApiError 400 ''API key not valid''),
          [Fetch example_request, ConsoleError (error_body ''API key not valid'')])
   \<and> truthy (JObj [(''toString'', JStr ''x'')])
   \<and> fetchWithBackoff example_runtime
        (always (error_response 400 ''Bad Request''
           (Some (JObj [(''error'', JObj [(''message'', JObj [(''toString'', JStr ''x'')])])]))))
        example_request (Finite 0) (Finite 1000) []
       = Some (Inl TypeError,
          [Fetch example_request,
           ConsoleError (JObj [(''error'', JObj [(''message'', JObj [(''toString'', JStr ''x'')])])])])
   \<and> \<not> truthy_opt (opt_member (opt_member (Some (JObj [])) ''error'') ''message'')
   \<and> fetchWithBackoff example_runtime (always (error_response 400 ''Bad Request'' (Some (JObj []))))
        example_request (Finite 0) (Finite 1000) []
       = Some (Inl (ApiError 400 ''Bad Request''), [Fetch example_request, ConsoleError (JObj [])])"
  using error_message_prefers_truthy_nested_message
    [where env = "always (error_response 503 ''Service Unavailable'' None)" and tr = "[]"
       and r = "error_response 503 ''Service Unavailable'' None" and req = example_request
       and retries = "Finite 0" and delay = "Finite 1000" and rt = example_runtime]
    error_message_prefers_truthy_nested_message
    [where env = "always (error_response 400 ''Bad Request'' (Some (error_body ''API key not valid'')))"
       and tr = "[]" and b = "error_body ''API key not valid''" and s = "''API key not valid''"
       and r = "error_response 400 ''Bad Request'' (Some (error_body ''API key not valid''))"
       and req = example_request and retries = "Finite 0" and delay = "Finite 1000"
       and rt = example_runtime]
    error_message_prefers_truthy_nested_message
    [where env = "always (error_response 400 ''Bad Request''
           (Some (JObj [(''error'', JObj [(''message'', JObj [(''toString'', JStr ''x'')])])])))"
       and tr = "[]"
       and b = "JObj [(''error'', JObj [(''message'', JObj [(''toString'', JStr ''x'')])])]"
       and m = "JObj [(''toString'', JStr ''x'')]"
       and r = "error_response 400 ''Bad Request''
           (Some (JObj [(''error'', JObj [(''message'', JObj [(''toString'', JStr ''x'')])])]))"
       and req = example_request and retries = "Finite 0" and delay = "Finite 1000"
       and rt = example_runtime]
    error_message_prefers_truthy_nested_message
    [where env = "always (error_response 400 ''Bad Request'' (Some (JObj [])))"
       and tr = "[]" and b = "JObj []"
       and r = "error_response 400 ''Bad Request'' (Some (JObj []))"
       and req = example_request and retries = "Finite 0" and delay = "Finite 1000"
       and rt = example_runtime]
  by (simp add: always_def ok_def error_response_def error_body_def opt_member_def truthy_opt_def
      greater_zero_def ToString_def example_runtime_def example_conversion_def)

theorem empty_nested_message_falls_back_counterexample:
  "\<not> ok (error_response 400 ''Bad Request'' (Some (error_body [])))
   \<and> json_result (error_response 400 ''Bad Request'' (Some (error_body []))) = Some (error_body [])
   \<and> opt_member (opt_member (Some (error_body [])) ''error'') ''message'' = Some (JStr [])
   \<and> fetchWithBackoff example_runtime
        (always (error_response 400 ''Bad Request'' (Some (error_body []))))
        example_request (Finite 0) (Finite 1000) []
       = Some (Inl (ApiError 400 ''Bad Request''),
               [Fetch example_request, ConsoleError (error_body [])])
   \<and> ''Bad Request'' \<noteq> []"
  by (simp add: fwb_eval error_body_def opt_member_def or_else_def)

text \<open>
  Claim C9, as amended. For every integer \<open>retries\<close> from 0 to \<open>2 ^ 53\<close> and every
  network, \<open>fetchWithBackoff\<close> settles and extends the trace by at least one and at most
  \<open>retries + 1\<close> calls of \<^verbatim>\<open>fetch\<close>: up to \<open>2 ^ 53\<close> the subtraction \<^verbatim>\<open>retries - 1\<close> is exact,
  and recursion needs \<^verbatim>\<open>retries > 0\<close>. The counterexample is \<^verbatim>\<open>retries = 0.5\<close> on a
  network that answers 500: two calls of \<^verbatim>\<open>fetch\<close>, more than \<open>0.5 + 1\<close>. (With
  \<^verbatim>\<open>retries = 2 ** 54\<close>, where \<^verbatim>\<open>retries - 1\<close> is \<open>retries\<close> again, the call on that
  network never settles: lemma \<open>stuck_retries_never_settle\<close>.)
\<close>

theorem terminates_within_retries_plus_one_fetches:
  assumes "n \<le> 2 ^ 53"
  shows "\<exists>res T. fetchWithBackoff rt env req (Finite (of_nat n)) delay tr = Some (res, tr @ T)
     \<and> 1 \<le> fetches T \<and> fetches T \<le> n + 1
     \<and> fetches (tr @ T) = fetches tr + fetches T"
proof -
  from fwb_shape [OF assms, of rt env req delay tr]
  obtain res T k where T:
    "fetchWithBackoff rt env req (Finite (of_nat n)) delay tr = Some (res, tr @ T)"
    "requests T = replicate (Suc k) req" "k \<le> n"
    by blast
  from T(2) have "fetches T = Suc k" by (simp add: fetches_def)
  with T(1,3) show ?thesis by auto
qed

theorem terminates_within_retries_plus_one_fetches_witness:
  "(3::nat) \<le> 2 ^ 53
   \<and> (\<exists>res T. fetchWithBackoff example_runtime
          (always (error_response 500 ''Internal Server Error'' None))
          example_request (Finite 3) (Finite 1000) [] = Some (res, [] @ T)
     \<and> 1 \<le> fetches T \<and> fetches T \<le> 3 + 1
     \<and> fetches ([] @ T) = fetches [] + fetches T)"
  using terminates_within_retries_plus_one_fetches
    [where n = 3 and env = "always (error_response 500 ''Internal Server Error'' None)"
       and req = example_request and delay = "Finite 1000" and tr = "[]" and rt = example_runtime]
  by simp

theorem fractional_retries_counterexample:
  "greater_zero (Finite (1 / 2))
   \<and> fetchWithBackoff example_runtime (always (error_response 500 ''Internal Server Error'' None))
        example_request (Finite (1 / 2)) (Finite 1000) []
       = Some (Inl (ApiError 500 ''Internal Server Error''),
          [Fetch example_request, ConsoleError JNull, Delay (Finite 1000),
           Fetch example_request, ConsoleError JNull])
   \<and> fetches [Fetch example_request, ConsoleError JNull, Delay (Finite 1000),
           Fetch example_request, ConsoleError JNull] = 2
   \<and> (1 / 2 + 1 :: rat) < 2"
  by (simp add: fwb_eval minus_one_half)

text \<open>
  Claim C10. A 2xx response whose body is not valid JSON makes the call fail with the
  SyntaxError of \<^verbatim>\<open>response.json()\<close> after this one call of \<^verbatim>\<open>fetch\<close>, with no wait and no
  retry, whatever \<open>retries\<close> is.
\<close>

theorem success_body_parse_failure_is_not_retried:
  assumes "env (fetches tr) = Responded r" and "ok r" and "json_result r = None"
  shows "fetchWithBackoff rt env req retries delay tr = Some (Inl SyntaxError, tr @ [Fetch req])"
  using assms by (simp add: fwb_response_ok)

theorem success_body_parse_failure_is_not_retried_witness:
  "always (error_response 200 ''OK'' None) (fetches []) = Responded (error_response 200 ''OK'' None)
   \<and> ok (error_response 200 ''OK'' None)
   \<and> json_result (error_response 200 ''OK'' None) = None
   \<and> fetchWithBackoff example_runtime (always (error_response 200 ''OK'' None)) example_request
        (Finite 3) (Finite 1000) []
       = Some (Inl SyntaxError, [Fetch example_request])"
  using success_body_parse_failure_is_not_retried
    [where env = "always (error_response 200 ''OK'' None)" and tr = "[]"
       and r = "error_response 200 ''OK'' None" and req = example_request
       and retries = "Finite 3" and delay = "Finite 1000" and rt = example_runtime]
  by (simp add: always_def ok_def error_response_def)

section \<open>Facts about fetchGroundedJson\<close>

lemma text_part_null: "text_part JNull = None"
  by (simp add: text_part_def opt_member_def opt_item0_def)

lemma first_text_null: "first_text JNull = Inl TypeError"
  by (simp add: first_text_def)

lemma first_text_nonnull: "data \<noteq> JNull \<Longrightarrow> first_text data = Inr (text_part data)"
  by (cases data) (simp_all add: first_text_def text_part_def opt_member_def)

lemma truthy_text_part_nonnull: "truthy_opt (text_part data) \<Longrightarrow> data \<noteq> JNull"
  by (auto simp: text_part_null truthy_opt_def)

lemma fgj_phase1_failed:
  "phase1 rt env apiKey textPrompt tr = Some (Inl e, tr2) \<Longrightarrow>
   fetchGroundedJson rt env apiKey textPrompt jsonSchema tr = Some (Inl e, tr2)"
  by (simp add: fetchGroundedJson_def)

lemma fgj_phase1_null:
  "phase1 rt env apiKey textPrompt tr = Some (Inr JNull, tr2) \<Longrightarrow>
   fetchGroundedJson rt env apiKey textPrompt jsonSchema tr = Some (Inl TypeError, tr2)"
  by (simp add: fetchGroundedJson_def first_text_null)

lemma fgj_step1_failed:
  "phase1 rt env apiKey textPrompt tr = Some (Inr searchData, tr2) \<Longrightarrow> searchData \<noteq> JNull \<Longrightarrow>
   \<not> truthy_opt (text_part searchData) \<Longrightarrow>
   fetchGroundedJson rt env apiKey textPrompt jsonSchema tr = Some (Inl step1_failed, tr2)"
  by (simp add: fetchGroundedJson_def first_text_nonnull)

lemma fgj_tostring_failed:
  "phase1 rt env apiKey textPrompt tr = Some (Inr searchData, tr2) \<Longrightarrow>
   truthy_opt (text_part searchData) \<Longrightarrow>
   ToString rt (text_part searchData) = Inl e \<Longrightarrow>
   fetchGroundedJson rt env apiKey textPrompt jsonSchema tr =
     Some (Inl e, tr2 @ [Progress ''Step 2/2: Analyzing and structuring data...''])"
  using truthy_text_part_nonnull [of searchData]
  by (simp add: fetchGroundedJson_def first_text_nonnull)

lemma fgj_phase2:
  assumes "phase1 rt env apiKey textPrompt tr = Some (Inr searchData, tr2)"
    and "truthy_opt (text_part searchData)"
    and "ToString rt (text_part searchData) = Inr text"
    and "phase2 rt env apiKey text jsonSchema tr2 = Some (r2, tr4)"
  shows "fetchGroundedJson rt env apiKey textPrompt jsonSchema tr =
     Some (case r2 of
        Inl e \<Rightarrow> Inl e
      | Inr jsonData \<Rightarrow>
          (case first_text jsonData of
             Inl e \<Rightarrow> Inl e
           | Inr jsonText \<Rightarrow>
               if truthy_opt jsonText then
                 (case ToString rt jsonText of
                    Inl e \<Rightarrow> Inl e
                  | Inr s \<Rightarrow>
                      (case JSON_parse rt s of None \<Rightarrow> Inl SyntaxError | Some parsed \<Rightarrow> Inr parsed))
               else Inl step2_failed),
      tr4)"
  using assms truthy_text_part_nonnull [OF assms(2)]
  by (simp add: fetchGroundedJson_def first_text_nonnull split: sum.splits option.splits)

lemma ToString_string: "ToString rt (Some (JStr s)) = Inr s"
  by (simp add: ToString_def)

lemma search_request_is_not_parse_request:
  "post u (searchPayload textPrompt) \<noteq> post u' (jsonPayload prompt jsonSchema)"
  by (simp add: post_def searchPayload_def jsonPayload_def)

lemma phase_trace:
  "\<exists>res T k. fetchWithBackoff rt env req (Finite 3) delay tr = Some (res, tr @ T)
     \<and> requests T = replicate (Suc k) req \<and> k \<le> 3 \<and> progress T = []"
proof -
  have "(3::nat) \<le> 2 ^ 53" by simp
  from fwb_shape [OF this, of rt env req delay tr] show ?thesis
    by auto
qed

lemma fgj_settles: "\<exists>y. fetchGroundedJson rt env apiKey textPrompt jsonSchema tr = Some y"
proof -
  obtain r1 tr2 where p1: "phase1 rt env apiKey textPrompt tr = Some (r1, tr2)"
    using phase_trace by blast
  show ?thesis
  proof (cases r1)
    case (Inl e)
    with p1 show ?thesis by (simp add: fgj_phase1_failed)
  next
    case (Inr searchData)
    note p1 = p1 [unfolded Inr]
    show ?thesis
    proof (cases "truthy_opt (text_part searchData)")
      case False
      with p1 show ?thesis
        by (cases "searchData = JNull") (simp_all add: fgj_phase1_null fgj_step1_failed)
    next
      case True
      show ?thesis
      proof (cases "ToString rt (text_part searchData)")
        case (Inl e)
        with p1 True show ?thesis by (simp add: fgj_tostring_failed)
      next
        case (Inr grounded)
        obtain r2 tr4 where "phase2 rt env apiKey grounded jsonSchema tr2 = Some (r2, tr4)"
          using phase_trace by blast
        from fgj_phase2 [OF p1 True Inr this] show ?thesis by simp
      qed
    qed
  qed
qed

lemma text_body_not_null: "text_body t \<noteq> JNull"
  by (simp add: text_body_def)

lemma text_part_text_body: "text_part (text_body t) = Some t"
  by (simp add: text_part_def text_body_def opt_member_def opt_item0_def)

lemma text_part_empty_object: "text_part (JObj []) = None"
  by (simp add: text_part_def opt_member_def opt_item0_def)

lemma example_parse_simps:
  "JSON_parse example_runtime ''not json'' = None"
  "JSON_parse example_runtime [] = None"
  "JSON_parse example_runtime ''{}'' = Some (JObj [])"
  by (simp_all add: example_runtime_def example_parse_def)

lemma eval_phase1:
  assumes "ok first" and "json_result first = Some b"
  shows "phase1 rt (first_then first second) ''key'' ''prompt'' [] = Some (Inr b, example_trace1)"
proof -
  have "first_then first second
          (fetches [Progress ''Step 1/2: Searching for grounded insights...''])
        = Responded first"
    by (simp add: first_then_def fetches_def)
  with assms show ?thesis
    by (simp add: fwb_response_ok example_trace1_def)
qed

lemma eval_phase1_always:
  assumes "ok r" and "json_result r = Some b"
  shows "phase1 rt (always r) ''key'' ''prompt'' [] = Some (Inr b, example_trace1)"
  using assms by (simp add: fwb_response_ok example_trace1_def always_def)

lemma eval_phase2:
  assumes "ok second" and "json_result second = Some b"
  shows "phase2 rt (first_then first second) ''key'' grounded (JObj []) example_trace1
     = Some (Inr b, example_trace2 grounded)"
proof -
  have "first_then first second
          (fetches (example_trace1 @ [Progress ''Step 2/2: Analyzing and structuring data...'']))
        = Responded second"
    by (simp add: first_then_def fetches_def example_trace1_def)
  with assms show ?thesis
    by (simp add: fwb_response_ok example_trace2_def)
qed

lemma ok_text_response: "ok (text_response t)" "json_result (text_response t) = Some (text_body t)"
  by (simp_all add: ok_def text_response_def)

lemma search_request_literal:
  "post (apiUrl apiKey) (searchPayload textPrompt) =
          \<lparr>url = ''https://generativelanguage.googleapis.com/v1beta/models/gemini-2.5-flash-preview-09-2025:generateContent?key='' @ apiKey,
           http_method = ''POST'', headers = [(''Content-Type'', ''application/json'')],
           body = JObj [(''contents'', JArr [JObj [(''parts'', JArr [JObj [(''text'', JStr textPrompt)]])]]),
                        (''tools'', JArr [JObj [(''google_search'', JObj [])]])]\<rparr>"
  by (simp add: post_def apiUrl_def searchPayload_def)

lemma parse_request_literal:
  "post (apiUrl apiKey) (jsonPayload (parseJsonPrompt grounded) jsonSchema) =
          \<lparr>url = ''https://generativelanguage.googleapis.com/v1beta/models/gemini-2.5-flash-preview-09-2025:generateContent?key='' @ apiKey,
           http_method = ''POST'', headers = [(''Content-Type'', ''application/json'')],
           body = JObj [(''contents'', JArr [JObj [(''parts'', JArr [JObj [(''text'',
                          JStr ([CHR 0x0A]
                            @ ''    Parse the following market analysis text and convert it into a valid JSON object matching the provided schema.''
                            @ [CHR 0x0A, CHR 0x0A]
                            @ ''    TEXT TO PARSE:'' @ [CHR 0x0A]
                            @ ''    ---'' @ [CHR 0x0A]
                            @ ''    '' @ grounded @ [CHR 0x0A]
                            @ ''    ---'' @ [CHR 0x0A, CHR 0x0A]
                            @ ''    Respond ONLY with the valid JSON object.'' @ [CHR 0x0A]
                            @ ''  ''))]])]]),
                        (''generationConfig'',
                           JObj [(''responseMimeType'', JStr ''application/json''),
                                 (''responseSchema'', jsonSchema)])]\<rparr>"
  by (simp add: post_def apiUrl_def jsonPayload_def parseJsonPrompt_def newline_def)

lemma eval_retrieval:
  "fetchGroundedJson example_runtime
      (first_then (text_response (JStr ''grounded facts'')) (text_response (JStr ''{}'')))
      ''key'' ''prompt'' (JObj []) []
     = Some (Inr (JObj []), example_trace2 ''grounded facts'')"
proof -
  have p: "phase1 example_runtime
      (first_then (text_response (JStr ''grounded facts'')) (text_response (JStr ''{}'')))
      ''key'' ''prompt'' [] = Some (Inr (text_body (JStr ''grounded facts'')), example_trace1)"
    by (rule eval_phase1) (rule ok_text_response)+
  have t: "truthy_opt (text_part (text_body (JStr ''grounded facts'')))"
    by (simp add: text_part_text_body truthy_opt_def)
  have s: "ToString example_runtime (text_part (text_body (JStr ''grounded facts''))) = Inr ''grounded facts''"
    by (simp add: text_part_text_body ToString_string)
  have b: "phase2 example_runtime
      (first_then (text_response (JStr ''grounded facts'')) (text_response (JStr ''{}'')))
      ''key'' ''grounded facts'' (JObj []) example_trace1
      = Some (Inr (text_body (JStr ''{}'')), example_trace2 ''grounded facts'')"
    by (rule eval_phase2) (rule ok_text_response)+
  from fgj_phase2 [OF p t s b] show ?thesis
    by (simp add: first_text_nonnull text_body_not_null text_part_text_body truthy_opt_def
        ToString_string example_parse_simps)
qed

section \<open>The claims about fetchGroundedJson\<close>

text \<open>
  Claim C5, as amended. When the first call returns a body whose first candidate's
  first text part is absent or falsy, the retrieval fails with the trace that the first
  call left: every request made is the search request, none is a request of step 2. The
  error is "Step 1 Failed" for every body other than \<^verbatim>\<open>null\<close>; on the body \<^verbatim>\<open>null\<close> the
  read of \<^verbatim>\<open>searchData.candidates\<close> throws a TypeError before the test is reached,
  which is the counterexample.
\<close>

theorem no_phase1_text_fails_without_phase2:
  assumes "phase1 rt env apiKey textPrompt tr = Some (Inr searchData, tr2)"
    and "\<not> truthy_opt (text_part searchData)"
  shows "fetchGroundedJson rt env apiKey textPrompt jsonSchema tr =
           Some (Inl (if searchData = JNull then TypeError else step1_failed), tr2)
       \<and> (\<exists>k\<le>3. requests tr2 = requests tr @ replicate (Suc k) (post (apiUrl apiKey) (searchPayload textPrompt)))
       \<and> post (apiUrl apiKey) (jsonPayload prompt schema) \<notin> set (requests tr2) - set (requests tr)"
proof -
  have res: "fetchGroundedJson rt env apiKey textPrompt jsonSchema tr =
           Some (Inl (if searchData = JNull then TypeError else step1_failed), tr2)"
    using assms by (cases "searchData = JNull") (simp_all add: fgj_phase1_null fgj_step1_failed)
  obtain res1 T k where T: "phase1 rt env apiKey textPrompt tr
        = Some (res1, (tr @ [Progress ''Step 1/2: Searching for grounded insights...'']) @ T)"
      "requests T = replicate (Suc k) (post (apiUrl apiKey) (searchPayload textPrompt))" "k \<le> 3"
    using phase_trace by blast
  with assms(1) have req: "requests tr2 = requests tr @ replicate (Suc k) (post (apiUrl apiKey) (searchPayload textPrompt))"
    by auto
  have "post (apiUrl apiKey) (jsonPayload prompt schema) \<notin> set (requests tr2) - set (requests tr)"
    using search_request_is_not_parse_request [of "apiUrl apiKey" textPrompt "apiUrl apiKey" prompt schema]
    by (auto simp: req simp del: replicate_Suc)
  with res req T(3) show ?thesis by blast
qed

theorem no_phase1_text_fails_without_phase2_witness:
  "phase1 example_runtime (always (text_response (JStr []))) ''key'' ''prompt'' [] =
     Some (Inr (text_body (JStr [])), example_trace1)
   \<and> \<not> truthy_opt (text_part (text_body (JStr [])))
   \<and> fetchGroundedJson example_runtime (always (text_response (JStr []))) ''key'' ''prompt'' (JObj []) []
       = Some (Inl step1_failed, example_trace1)"
proof -
  have p: "phase1 example_runtime (always (text_response (JStr []))) ''key'' ''prompt'' [] =
     Some (Inr (text_body (JStr [])), example_trace1)"
    by (rule eval_phase1_always) (rule ok_text_response)+
  have t: "\<not> truthy_opt (text_part (text_body (JStr [])))"
    by (simp add: text_part_text_body truthy_opt_def)
  from no_phase1_text_fails_without_phase2 [OF p t, of "JObj []"] p t
  show ?thesis by (simp add: text_body_not_null)
qed

theorem null_phase1_body_is_type_error_counterexample:
  "json_result (error_response 200 ''OK'' (Some JNull)) = Some JNull
   \<and> text_part JNull = None
   \<and> fetchGroundedJson example_runtime (always (error_response 200 ''OK'' (Some JNull)))
        ''key'' ''prompt'' (JObj []) []
       = Some (Inl TypeError,
          [Progress ''Step 1/2: Searching for grounded insights...'',
           Fetch (post (apiUrl ''key'') (searchPayload ''prompt''))])
   \<and> TypeError \<noteq> step1_failed"
proof -
  have "phase1 example_runtime (always (error_response 200 ''OK'' (Some JNull))) ''key'' ''prompt'' []
      = Some (Inr JNull, example_trace1)"
    by (rule eval_phase1_always) (simp_all add: ok_def error_response_def)
  from fgj_phase1_null [OF this] show ?thesis
    by (simp add: text_part_null error_response_def example_trace1_def step1_failed_def)
qed

text \<open>
  Claim C6, as amended. After a successful step 1 and a step-2 body other than \<^verbatim>\<open>null\<close>:
  when the text part is absent or falsy (the empty string included) the retrieval fails
  with "Step 2 Failed"; when the text part is a non-empty string that \<^verbatim>\<open>JSON.parse\<close>
  rejects, it fails with the SyntaxError of \<^verbatim>\<open>JSON.parse\<close>. In both cases the trace is the
  one the second call left: nothing is repaired or retried. The counterexample is the
  empty text part: it is present and is not JSON, and the error is "Step 2 Failed".
\<close>

theorem phase2_text_missing_or_malformed:
  assumes "phase1 rt env apiKey textPrompt tr = Some (Inr searchData, tr2)"
    and "truthy_opt (text_part searchData)"
    and "ToString rt (text_part searchData) = Inr text"
    and "phase2 rt env apiKey text jsonSchema tr2 = Some (Inr jsonData, tr4)"
    and "jsonData \<noteq> JNull"
  shows "(\<not> truthy_opt (text_part jsonData) \<longrightarrow>
            fetchGroundedJson rt env apiKey textPrompt jsonSchema tr = Some (Inl step2_failed, tr4))
       \<and> (text_part jsonData = Some (JStr s) \<longrightarrow> s \<noteq> [] \<longrightarrow> JSON_parse rt s = None \<longrightarrow>
            fetchGroundedJson rt env apiKey textPrompt jsonSchema tr = Some (Inl SyntaxError, tr4))"
  using assms(5) fgj_phase2 [OF assms(1-4)]
  by (simp add: first_text_nonnull truthy_opt_def ToString_string)

theorem phase2_text_missing_or_malformed_witness:
  "fetchGroundedJson example_runtime
      (first_then (text_response (JStr ''grounded facts'')) (error_response 200 ''OK'' (Some (JObj []))))
      ''key'' ''prompt'' (JObj []) []
     = Some (Inl step2_failed, example_trace2 ''grounded facts'')
   \<and> fetchGroundedJson example_runtime
      (first_then (text_response (JStr ''grounded facts'')) (text_response (JStr ''not json'')))
      ''key'' ''prompt'' (JObj []) []
     = Some (Inl SyntaxError, example_trace2 ''grounded facts'')"
proof -
  have p: "phase1 example_runtime (first_then (text_response (JStr ''grounded facts'')) second)
      ''key'' ''prompt'' [] = Some (Inr (text_body (JStr ''grounded facts'')), example_trace1)"
    for second
    by (rule eval_phase1) (rule ok_text_response)+
  have t: "truthy_opt (text_part (text_body (JStr ''grounded facts'')))"
    by (simp add: text_part_text_body truthy_opt_def)
  have s: "ToString example_runtime (text_part (text_body (JStr ''grounded facts''))) = Inr ''grounded facts''"
    by (simp add: text_part_text_body ToString_string)
  have a: "phase2 example_runtime
      (first_then (text_response (JStr ''grounded facts'')) (error_response 200 ''OK'' (Some (JObj []))))
      ''key'' ''grounded facts'' (JObj []) example_trace1
      = Some (Inr (JObj []), example_trace2 ''grounded facts'')"
    by (rule eval_phase2) (simp_all add: ok_def error_response_def)
  have b: "phase2 example_runtime
      (first_then (text_response (JStr ''grounded facts'')) (text_response (JStr ''not json'')))
      ''key'' ''grounded facts'' (JObj []) example_trace1
      = Some (Inr (text_body (JStr ''not json'')), example_trace2 ''grounded facts'')"
    by (rule eval_phase2) (rule ok_text_response)+
  from phase2_text_missing_or_malformed [OF p t s a, of "[]"]
    phase2_text_missing_or_malformed [OF p t s b, of "''not json''"]
  show ?thesis
    by (simp add: text_part_empty_object text_part_text_body truthy_opt_def example_parse_simps
        text_body_not_null)
qed

theorem empty_phase2_text_is_step2_failed_counterexample:
  "text_part (text_body (JStr [])) = Some (JStr [])
   \<and> JSON_parse example_runtime [] = None
   \<and> fetchGroundedJson example_runtime
        (first_then (text_response (JStr ''grounded facts'')) (text_response (JStr [])))
        ''key'' ''prompt'' (JObj []) []
       = Some (Inl step2_failed, example_trace2 ''grounded facts'')
   \<and> step2_failed \<noteq> SyntaxError"
proof -
  have p: "phase1 example_runtime
      (first_then (text_response (JStr ''grounded facts'')) (text_response (JStr [])))
      ''key'' ''prompt'' [] = Some (Inr (text_body (JStr ''grounded facts'')), example_trace1)"
    by (rule eval_phase1) (rule ok_text_response)+
  have t: "truthy_opt (text_part (text_body (JStr ''grounded facts'')))"
    by (simp add: text_part_text_body truthy_opt_def)
  have s: "ToString example_runtime (text_part (text_body (JStr ''grounded facts''))) = Inr ''grounded facts''"
    by (simp add: text_part_text_body ToString_string)
  have b: "phase2 example_runtime
      (first_then (text_response (JStr ''grounded facts'')) (text_response (JStr [])))
      ''key'' ''grounded facts'' (JObj []) example_trace1
      = Some (Inr (text_body (JStr [])), example_trace2 ''grounded facts'')"
    by (rule eval_phase2) (rule ok_text_response)+
  from fgj_phase2 [OF p t s b] show ?thesis
    by (simp add: first_text_nonnull text_body_not_null text_part_text_body truthy_opt_def
        example_parse_simps step2_failed_def)
qed

text \<open>
  Claim C7. When the text part of the step-2 body is a string that \<^verbatim>\<open>JSON.parse\<close>
  accepts, the retrieval returns exactly the value \<^verbatim>\<open>JSON.parse\<close> gives for that string.
  (\<^verbatim>\<open>JSON.parse\<close> rejects the empty string, which is the last assumption.)
\<close>

theorem well_formed_phase2_text_round_trip:
  assumes "phase1 rt env apiKey textPrompt tr = Some (Inr searchData, tr2)"
    and "truthy_opt (text_part searchData)"
    and "ToString rt (text_part searchData) = Inr text"
    and "phase2 rt env apiKey text jsonSchema tr2 = Some (Inr jsonData, tr4)"
    and "text_part jsonData = Some (JStr s)"
    and "JSON_parse rt s = Some parsed"
    and "JSON_parse rt [] = None"
  shows "fetchGroundedJson rt env apiKey textPrompt jsonSchema tr = Some (Inr parsed, tr4)"
proof -
  from assms(5) have nn: "jsonData \<noteq> JNull" by (auto simp: text_part_null)
  from assms(6,7) have "s \<noteq> []" by auto
  with nn assms(5,6) fgj_phase2 [OF assms(1-4)] show ?thesis
    by (simp add: first_text_nonnull truthy_opt_def ToString_string)
qed

theorem well_formed_phase2_text_round_trip_witness:
  "JSON_parse example_runtime ''{}'' = Some (JObj [])
   \<and> JSON_parse example_runtime [] = None
   \<and> fetchGroundedJson example_runtime
      (first_then (text_response (JStr ''grounded facts'')) (text_response (JStr ''{}'')))
      ''key'' ''prompt'' (JObj []) []
     = Some (Inr (JObj []), example_trace2 ''grounded facts'')"
proof -
  have p: "phase1 example_runtime
      (first_then (text_response (JStr ''grounded facts'')) (text_response (JStr ''{}'')))
      ''key'' ''prompt'' [] = Some (Inr (text_body (JStr ''grounded facts'')), example_trace1)"
    by (rule eval_phase1) (rule ok_text_response)+
  have t: "truthy_opt (text_part (text_body (JStr ''grounded facts'')))"
    by (simp add: text_part_text_body truthy_opt_def)
  have s: "ToString example_runtime (text_part (text_body (JStr ''grounded facts''))) = Inr ''grounded facts''"
    by (simp add: text_part_text_body ToString_string)
  have b: "phase2 example_runtime
      (first_then (text_response (JStr ''grounded facts'')) (text_response (JStr ''{}'')))
      ''key'' ''grounded facts'' (JObj []) example_trace1
      = Some (Inr (text_body (JStr ''{}'')), example_trace2 ''grounded facts'')"
    by (rule eval_phase2) (rule ok_text_response)+
  from well_formed_phase2_text_round_trip
    [OF p t s b text_part_text_body example_parse_simps(3) example_parse_simps(2)]
  show ?thesis by (simp add: example_parse_simps)
qed

text \<open>
  Claim C8, as amended. Whenever the retrieval returns a value, the first call has
  returned a body with a truthy text part; a text part that is a string is then not
  empty. The trace is: the progress message of step 1, between one and four calls of
  \<^verbatim>\<open>fetch\<close> with the search request (the prompt, and the search tool), then the progress
  message of step 2, then between one and four calls of \<^verbatim>\<open>fetch\<close> with the request whose
  prompt is the fixed text around the text of step 1 and whose configuration asks for
  JSON of the given schema. So step 1 is never skipped, and every request of step 2 is
  built from the text of step 1 and issued after the first call has returned. The
  counterexample is a text part that is the empty array: it is truthy, its text is empty,
  and the retrieval still returns a value.
\<close>

theorem structured_result_only_after_grounded_result:
  assumes "fetchGroundedJson rt env apiKey textPrompt jsonSchema tr = Some (Inr v, tr')"
  shows "\<exists>searchData tr2 grounded jsonData T1 T2 k1 k2.
       phase1 rt env apiKey textPrompt tr = Some (Inr searchData, tr2)
     \<and> truthy_opt (text_part searchData)
     \<and> (\<forall>s. text_part searchData = Some (JStr s) \<longrightarrow> s \<noteq> [] \<and> grounded = s)
     \<and> ToString rt (text_part searchData) = Inr grounded
     \<and> phase2 rt env apiKey grounded jsonSchema tr2 = Some (Inr jsonData, tr')
     \<and> tr2 = tr @ Progress ''Step 1/2: Searching for grounded insights...'' # T1
     \<and> tr' = tr2 @ Progress ''Step 2/2: Analyzing and structuring data...'' # T2
     \<and> requests T1 = replicate (Suc k1)
          \<lparr>url = ''https://generativelanguage.googleapis.com/v1beta/models/gemini-2.5-flash-preview-09-2025:generateContent?key='' @ apiKey,
           http_method = ''POST'', headers = [(''Content-Type'', ''application/json'')],
           body = JObj [(''contents'', JArr [JObj [(''parts'', JArr [JObj [(''text'', JStr textPrompt)]])]]),
                        (''tools'', JArr [JObj [(''google_search'', JObj [])]])]\<rparr>
     \<and> requests T2 = replicate (Suc k2)
          \<lparr>url = ''https://generativelanguage.googleapis.com/v1beta/models/gemini-2.5-flash-preview-09-2025:generateContent?key='' @ apiKey,
           http_method = ''POST'', headers = [(''Content-Type'', ''application/json'')],
           body = JObj [(''contents'', JArr [JObj [(''parts'', JArr [JObj [(''text'',
                          JStr ([CHR 0x0A]
                            @ ''    Parse the following market analysis text and convert it into a valid JSON object matching the provided schema.''
                            @ [CHR 0x0A, CHR 0x0A]
                            @ ''    TEXT TO PARSE:'' @ [CHR 0x0A]
                            @ ''    ---'' @ [CHR 0x0A]
                            @ ''    '' @ grounded @ [CHR 0x0A]
                            @ ''    ---'' @ [CHR 0x0A, CHR 0x0A]
                            @ ''    Respond ONLY with the valid JSON object.'' @ [CHR 0x0A]
                            @ ''  ''))]])]]),
                        (''generationConfig'',
                           JObj [(''responseMimeType'', JStr ''application/json''),
                                 (''responseSchema'', jsonSchema)])]\<rparr>
     \<and> progress T1 = [] \<and> progress T2 = [] \<and> k1 \<le> 3 \<and> k2 \<le> 3"
proof -
  obtain r1 tr2 where p1: "phase1 rt env apiKey textPrompt tr = Some (r1, tr2)"
    using phase_trace by blast
  with assms obtain searchData where r1: "r1 = Inr searchData"
    by (cases r1) (auto simp: fgj_phase1_failed)
  note p1 = p1 [unfolded r1]
  have nn: "searchData \<noteq> JNull"
    using assms fgj_phase1_null [of rt env apiKey textPrompt tr tr2 jsonSchema] p1 by auto
  have tt: "truthy_opt (text_part searchData)"
    using assms fgj_step1_failed [OF p1 nn, of jsonSchema] by auto
  obtain grounded where ts: "ToString rt (text_part searchData) = Inr grounded"
    using assms fgj_tostring_failed [OF p1 tt, of _ jsonSchema]
    by (cases "ToString rt (text_part searchData)") auto
  have str: "\<forall>s. text_part searchData = Some (JStr s) \<longrightarrow> s \<noteq> [] \<and> grounded = s"
    using tt ts by (auto simp: truthy_opt_def ToString_string)
  obtain r2 tr4 where p2: "phase2 rt env apiKey grounded jsonSchema tr2 = Some (r2, tr4)"
    using phase_trace by blast
  from assms fgj_phase2 [OF p1 tt ts p2] obtain jsonData where r2: "r2 = Inr jsonData" and tr4: "tr4 = tr'"
    by (cases r2) auto
  note p2 = p2 [unfolded r2 tr4]
  obtain res1 T1 k1 where T1: "phase1 rt env apiKey textPrompt tr
        = Some (res1, (tr @ [Progress ''Step 1/2: Searching for grounded insights...'']) @ T1)"
      "requests T1 = replicate (Suc k1) (post (apiUrl apiKey) (searchPayload textPrompt))"
      "k1 \<le> 3" "progress T1 = []"
    using phase_trace by blast
  obtain res2 T2 k2 where T2: "phase2 rt env apiKey grounded jsonSchema tr2
        = Some (res2, (tr2 @ [Progress ''Step 2/2: Analyzing and structuring data...'']) @ T2)"
      "requests T2 = replicate (Suc k2) (post (apiUrl apiKey) (jsonPayload (parseJsonPrompt grounded) jsonSchema))"
      "k2 \<le> 3" "progress T2 = []"
    using phase_trace by blast
  from T1(1) p1 have e1: "tr2 = tr @ Progress ''Step 1/2: Searching for grounded insights...'' # T1"
    by auto
  from T2(1) p2 have e2: "tr' = tr2 @ Progress ''Step 2/2: Analyzing and structuring data...'' # T2"
    by auto
  note q1 = T1(2) [unfolded search_request_literal]
  note q2 = T2(2) [unfolded parse_request_literal]
  show ?thesis
    by (intro exI [of _ searchData] exI [of _ tr2] exI [of _ grounded] exI [of _ jsonData]
        exI [of _ T1] exI [of _ T2] exI [of _ k1] exI [of _ k2] conjI)
       (fact p1 tt str ts p2 e1 e2 q1 q2 T1(3,4) T2(3,4))+
qed

theorem structured_result_only_after_grounded_result_witness:
  "fetchGroundedJson example_runtime
      (first_then (text_response (JStr ''grounded facts'')) (text_response (JStr ''{}'')))
      ''key'' ''prompt'' (JObj []) []
     = Some (Inr (JObj []), example_trace2 ''grounded facts'')
   \<and> (\<exists>searchData tr2 grounded jsonData T1 T2 k1 k2.
       phase1 example_runtime (first_then (text_response (JStr ''grounded facts'')) (text_response (JStr ''{}''))) ''key'' ''prompt'' [] = Some (Inr searchData, tr2)
     \<and> truthy_opt (text_part searchData)
     \<and> (\<forall>s. text_part searchData = Some (JStr s) \<longrightarrow> s \<noteq> [] \<and> grounded = s)
     \<and> ToString example_runtime (text_part searchData) = Inr grounded
     \<and> phase2 example_runtime (first_then (text_response (JStr ''grounded facts'')) (text_response (JStr ''{}''))) ''key'' grounded (JObj []) tr2 = Some (Inr jsonData, example_trace2 ''grounded facts'')
     \<and> tr2 = [] @ Progress ''Step 1/2: Searching for grounded insights...'' # T1
     \<and> example_trace2 ''grounded facts'' = tr2 @ Progress ''Step 2/2: Analyzing and structuring data...'' # T2
     \<and> requests T1 = replicate (Suc k1)
          \<lparr>url = ''https://generativelanguage.googleapis.com/v1beta/models/gemini-2.5-flash-preview-09-2025:generateContent?key='' @ ''key'',
           http_method = ''POST'', headers = [(''Content-Type'', ''application/json'')],
           body = JObj [(''contents'', JArr [JObj [(''parts'', JArr [JObj [(''text'', JStr ''prompt'')]])]]),
                        (''tools'', JArr [JObj [(''google_search'', JObj [])]])]\<rparr>
     \<and> requests T2 = replicate (Suc k2)
          \<lparr>url = ''https://generativelanguage.googleapis.com/v1beta/models/gemini-2.5-flash-preview-09-2025:generateContent?key='' @ ''key'',
           http_method = ''POST'', headers = [(''Content-Type'', ''application/json'')],
           body = JObj [(''contents'', JArr [JObj [(''parts'', JArr [JObj [(''text'',
                          JStr ([CHR 0x0A]
                            @ ''    Parse the following market analysis text and convert it into a valid JSON object matching the provided schema.''
                            @ [CHR 0x0A, CHR 0x0A]
                            @ ''    TEXT TO PARSE:'' @ [CHR 0x0A]
                            @ ''    ---'' @ [CHR 0x0A]
                            @ ''    '' @ grounded @ [CHR 0x0A]
                            @ ''    ---'' @ [CHR 0x0A, CHR 0x0A]
                            @ ''    Respond ONLY with the valid JSON object.'' @ [CHR 0x0A]
                            @ ''  ''))]])]]),
                        (''generationConfig'',
                           JObj [(''responseMimeType'', JStr ''application/json''),
                                 (''responseSchema'', JObj [])])]\<rparr>
     \<and> progress T1 = [] \<and> progress T2 = [] \<and> k1 \<le> 3 \<and> k2 \<le> 3)"
  by (rule conjI [OF eval_retrieval structured_result_only_after_grounded_result [OF eval_retrieval]])

theorem empty_array_text_part_counterexample:
  "text_part (text_body (JArr [])) = Some (JArr [])
   \<and> ToString example_runtime (Some (JArr [])) = Inr []
   \<and> fetchGroundedJson example_runtime
        (first_then (text_response (JArr [])) (text_response (JStr ''{}'')))
        ''key'' ''prompt'' (JObj []) []
       = Some (Inr (JObj []), example_trace2 [])"
proof -
  have p: "phase1 example_runtime
      (first_then (text_response (JArr [])) (text_response (JStr ''{}'')))
      ''key'' ''prompt'' [] = Some (Inr (text_body (JArr [])), example_trace1)"
    by (rule eval_phase1) (rule ok_text_response)+
  have t: "truthy_opt (text_part (text_body (JArr [])))"
    by (simp add: text_part_text_body truthy_opt_def)
  have s: "ToString example_runtime (text_part (text_body (JArr []))) = Inr []"
    by (simp add: text_part_text_body ToString_def example_runtime_def example_conversion_def)
  have b: "phase2 example_runtime
      (first_then (text_response (JArr [])) (text_response (JStr ''{}'')))
      ''key'' [] (JObj []) example_trace1
      = Some (Inr (text_body (JStr ''{}'')), example_trace2 [])"
    by (rule eval_phase2) (rule ok_text_response)+
  from fgj_phase2 [OF p t s b] s show ?thesis
    by (simp add: first_text_nonnull text_body_not_null text_part_text_body truthy_opt_def
        ToString_string example_parse_simps)
qed

end
